theory Spec2Isabelle
  imports Main
begin

section \<open>JavaScript values used by the handlers of server.js\<close>

text \<open>
  A JavaScript string is modelled as a \<^typ>\<open>string\<close> whose characters are the code units
  below 256 (ASCII and the Latin-1 supplement). A request field that may be absent is a
  \<^typ>\<open>string option\<close>, \<open>None\<close> standing for \<open>undefined\<close>.
\<close>

definition truthy :: "string option \<Rightarrow> bool" where
  "truthy v = (case v of None \<Rightarrow> False | Some s \<Rightarrow> s \<noteq> [])"

text \<open>A template literal renders \<open>undefined\<close> by its name.\<close>

definition template_str :: "string option \<Rightarrow> string" where
  "template_str v = (case v of None \<Rightarrow> ''undefined'' | Some s \<Rightarrow> s)"

text \<open>
  \<open>String.prototype.toLowerCase\<close> on code units below 256: the letters A to Z, and the
  Latin-1 capitals 0xC0 to 0xDE without the multiplication sign 0xD7, move up by 32.
\<close>

definition lower_char :: "char \<Rightarrow> char" where
  "lower_char c =
     (let n = (of_char c :: nat) in
      if (65 \<le> n \<and> n \<le> 90) \<or> (192 \<le> n \<and> n \<le> 222 \<and> n \<noteq> 215)
      then char_of (n + 32) else c)"

definition toLowerCase :: "string \<Rightarrow> string" where
  "toLowerCase s = map lower_char s"

text \<open>
  \<open>String.prototype.trim\<close>: the white space and line terminators below 256 are
  TAB, LF, VT, FF, CR, SP and NBSP.
\<close>

definition is_space :: "char \<Rightarrow> bool" where
  "is_space c = ((of_char c :: nat) \<in> {9, 10, 11, 12, 13, 32, 160})"

definition trim :: "string \<Rightarrow> string" where
  "trim s = rev (dropWhile is_space (rev (dropWhile is_space s)))"

text \<open>The character class \<open>[a-z0-9-]\<close>.\<close>

definition name_char :: "char \<Rightarrow> bool" where
  "name_char c =
     (let n = (of_char c :: nat) in
      (97 \<le> n \<and> n \<le> 122) \<or> (48 \<le> n \<and> n \<le> 57) \<or> n = 45)"

text \<open>\<open>.replace(/[^a-z0-9-]/g, '-')\<close>\<close>

definition replace_invalid :: "string \<Rightarrow> string" where
  "replace_invalid s = map (\<lambda>c. if name_char c then c else CHR ''-'') s"

text \<open>\<open>.replace(/-+/g, '-')\<close>: every maximal run of hyphens becomes one hyphen.\<close>

fun collapse_hyphens :: "string \<Rightarrow> string" where
  "collapse_hyphens [] = []"
| "collapse_hyphens [c] = [c]"
| "collapse_hyphens (c # d # s) =
     (if c = CHR ''-'' \<and> d = CHR ''-'' then collapse_hyphens (d # s)
      else c # collapse_hyphens (d # s))"

text \<open>
  Lines 148 to 150 (and 397 to 399): the name of the app. \<open>uuid\<close> is the value the
  call \<open>uuidv4()\<close> returns when the second branch is taken.
\<close>

definition generatedAppName :: "string option \<Rightarrow> string option \<Rightarrow> string \<Rightarrow> string" where
  "generatedAppName appname bot_type uuid =
     (if truthy (map_option trim appname)
      then collapse_hyphens (replace_invalid (toLowerCase (trim (the appname))))
      else template_str bot_type @ ''md-'' @ take 6 uuid)"

text \<open>
  Numbers in a template literal: a count is rendered in decimal, a negative limit with
  a leading minus sign.
\<close>

fun show_nat :: "nat \<Rightarrow> string" where
  "show_nat n =
     (if n < 10 then [char_of (48 + n)]
      else show_nat (n div 10) @ [char_of (48 + n mod 10)])"

definition show_int :: "int \<Rightarrow> string" where
  "show_int i = (if i < 0 then CHR ''-'' # show_nat (nat (- i)) else show_nat (nat i))"

text \<open>
  A thrown error: \<open>message\<close> is always there, \<open>response_data\<close> is
  \<open>error.response?.data\<close>, present on an HTTP error the provider answered.
\<close>

datatype js_error = JsError (response_data: "string option") (message: string)

text \<open>\<open>error.response?.data || error.message\<close>\<close>

definition details_of :: "js_error \<Rightarrow> string" where
  "details_of e =
     (case response_data e of
        None \<Rightarrow> message e
      | Some d \<Rightarrow> if d \<noteq> [] then d else message e)"

section \<open>Data model\<close>

text \<open>
  An entry of the request's \<open>config\<close> object. \<open>Nullish\<close> is \<open>null\<close> or
  \<open>undefined\<close>, on which reading \<open>.value\<close> throws; \<open>Entry v\<close> is any other value,
  whose \<open>.value\<close> reads \<open>v\<close> (\<open>None\<close> when it has no such property).
\<close>

datatype config_entry = Nullish | Entry "string option"

type_synonym config_t = "(string \<times> config_entry) list"

text \<open>The body of \<open>POST /deploy\<close>, destructured at lines 114 and 361.\<close>

record deploy_body =
  username :: "string option"
  session_id :: "string option"
  appname :: "string option"
  bot_type :: "string option"
  config :: "config_t option"

text \<open>
  A document of the collection \<open>deployments\<close>, with the fields the handlers write
  (the \<open>_id\<close> the driver adds is never read). The first revision of the handler
  (lines 192 to 198) stores no \<open>session_id\<close> and no \<open>config\<close>; the second (lines 407
  to 415) does.
\<close>

record deployment =
  d_username :: string
  d_name :: string
  d_type :: "string option"
  d_token :: string
  d_createdAt :: nat
  d_session_id :: "string option"
  d_config :: "config_t option"

text \<open>The projection \<open>{ _id: 0, name: 1, type: 1, createdAt: 1 }\<close> of lines 64 and 312.\<close>

record bot =
  name :: string
  type :: "string option"
  createdAt :: nat

text \<open>An entry of the allow-list document; a malformed entry has no \<open>username\<close>.\<close>

record pro_user =
  pu_username :: "string option"
  pu_limit :: "int option"

text \<open>The outbound HTTP calls, in the order they are made.\<close>

datatype remote_call =
    GetJson string
  | CreateApp string string
  | SetConfigVars string string "(string \<times> string option) list"
  | TriggerBuild string string "string option"
  | DeleteApp string string

datatype db_op = CountDocuments | FindOne | Find | DeleteOne | InsertOne

text \<open>
  What the handlers do not control: whether a store call throws (and with what
  message), what the allow-list URL answers (\<open>Inl\<close> also when the body is not an
  array), what the provider answers to a call (\<open>None\<close> is success), the key
  \<open>getRandomHerokuKey()\<close> picks, the successive results of \<open>uuidv4()\<close> and the
  clock.
\<close>

record env =
  db_fault :: "db_op \<Rightarrow> string option"
  axios_get :: "string \<Rightarrow> js_error + pro_user list"
  heroku :: "remote_call \<Rightarrow> js_error option"
  getRandomHerokuKey :: string
  uuidv4 :: "nat \<Rightarrow> string"
  now :: nat

datatype response =
    JsonError nat string "string option"
  | DeployStarted string string "string option"
  | BotsOk "bot list"
  | MessageOk string

text \<open>
  What a handler leaves behind: the response, the documents of the collection, the
  outbound calls made and the lines written by \<open>console.error\<close>.
\<close>

record result =
  resp :: response
  docs_after :: "deployment list"
  calls :: "remote_call list"
  console :: "(string \<times> string) list"

definition REPOSITORIES :: "string \<Rightarrow> string option" where
  "REPOSITORIES k =
     (if k = ''khan'' then Some ''https://github.com/JawadTechXD/KHAN-MD/tarball/main''
      else if k = ''jawad'' then Some ''https://github.com/JawadTechXD/JAWAD-MD/tarball/main''
      else None)"

section \<open>The collection\<close>

definition countDocuments :: "deployment list \<Rightarrow> string \<Rightarrow> nat" where
  "countDocuments docs u = length (filter (\<lambda>d. d_username d = u) docs)"

definition findOne :: "deployment list \<Rightarrow> string \<Rightarrow> deployment option" where
  "findOne docs t = find (\<lambda>d. d_token d = t) docs"



fun deleteOne :: "deployment list \<Rightarrow> string \<Rightarrow> deployment list" where
  "deleteOne [] n = []"
| "deleteOne (d # ds) n = (if d_name d = n then ds else d # deleteOne ds n)"

text \<open>\<open>insertOne\<close> on a collection without unique indexes (first revision).\<close>

definition insertOne :: "deployment list \<Rightarrow> deployment \<Rightarrow> deployment list" where
  "insertOne docs d = docs @ [d]"

text \<open>
  \<open>insertOne\<close> under the unique indexes on \<open>token\<close> and \<open>name\<close> that
  \<open>connectToMongo\<close> creates (lines 250 and 251): a duplicate key is refused with the
  store's E11000 error, whose message names the index (abbreviated here).
\<close>

definition insertOne_unique :: "deployment list \<Rightarrow> deployment \<Rightarrow> string + deployment list" where
  "insertOne_unique docs d =
     (if d_token d \<in> set (map d_token docs)
      then Inl ''E11000 duplicate key error index: token_1''
      else if d_name d \<in> set (map d_name docs)
      then Inl ''E11000 duplicate key error index: name_1''
      else Inr (docs @ [d]))"

section \<open>The handlers\<close>

text \<open>
  server.js holds two revisions of the server: lines 1 to 216 (the first, which calls
  the provider) and lines 217 to 448 (the second, which creates the unique indexes and
  only records the deployment). A definition with suffix \<open>_1\<close> or \<open>_2\<close> embeds the
  handler of that revision; one without suffix is the same text in both. A handler
  takes the documents of the collection and returns them as it leaves them. The
  connection is taken as made (the middleware of lines 264 to 272 then passes every
  request on); a store call that throws, a missing connection included, is a
  \<open>db_fault\<close>.
\<close>

subsection \<open>The deployment limit (lines 125 to 146 and 371 to 395)\<close>

text \<open>
  \<open>proUsers.find(user => user.username.toLowerCase() === username.toLowerCase())\<close>:
  the first entry that matches; an entry without \<open>username\<close> met on the way throws.
\<close>

fun find_proUser :: "pro_user list \<Rightarrow> string \<Rightarrow> string + pro_user option" where
  "find_proUser [] u = Inr None"
| "find_proUser (p # ps) u =
     (case pu_username p of
        None \<Rightarrow> Inl ''Cannot read properties of undefined (reading 'toLowerCase')''
      | Some n \<Rightarrow>
          if toLowerCase n = toLowerCase u then Inr (Some p) else find_proUser ps u)"

text \<open>\<open>proUser.limit || 5\<close>\<close>

definition proUser_limit :: "pro_user \<Rightarrow> int" where
  "proUser_limit p = (case pu_limit p of None \<Rightarrow> 5 | Some l \<Rightarrow> if l = 0 then 5 else l)"

text \<open>The inner \<open>try\<close>: the limit, and what its \<open>catch\<close> logged.\<close>

definition userLimit :: "js_error + pro_user list \<Rightarrow> string \<Rightarrow> int \<times> (string \<times> string) list" where
  "userLimit fetched u =
     (case fetched of
        Inl e \<Rightarrow> (2, [(''Error fetching pro users:'', message e)])
      | Inr proUsers \<Rightarrow>
          (case find_proUser proUsers u of
             Inl m \<Rightarrow> (2, [(''Error fetching pro users:'', m)])
           | Inr None \<Rightarrow> (2, [])
           | Inr (Some proUser) \<Rightarrow> (proUser_limit proUser, [])))"

definition limit_message :: "nat \<Rightarrow> int \<Rightarrow> string" where
  "limit_message deployments limit =
     ''You've reached the maximum deployment limit ('' @ show_nat deployments @ ''/'' @
     show_int limit @ ''). Please contact admin.''"

text \<open>
  The outer \<open>try\<close>: the response when the limit is reached (\<open>None\<close> when the handler
  goes on), the calls made and the lines logged.
\<close>

definition check_deployment_limit ::
  "env \<Rightarrow> string \<Rightarrow> string \<Rightarrow> deployment list \<Rightarrow>
   response option \<times> remote_call list \<times> (string \<times> string) list" where
  "check_deployment_limit E url u docs =
     (case db_fault E CountDocuments of
        Some m \<Rightarrow> (None, [], [(''Error checking deployment limit:'', m)])
      | None \<Rightarrow>
          (let deployments = countDocuments docs (toLowerCase u);
               (limit, logged) = userLimit (axios_get E url) u
           in (if int deployments \<ge> limit
               then Some (JsonError 400 (limit_message deployments limit) None)
               else None,
               [GetJson url], logged)))"

definition pro_url_1 :: string where
  "pro_url_1 = ''https://raw.githubusercontent.com/JawadTechXD/VPS/main/user.json''"

definition pro_url_2 :: string where
  "pro_url_2 = ''https://raw.githubusercontent.com/JawadTechXD/pro-users/main/pro.json''"

subsection \<open>Provisioning and recording\<close>

text \<open>
  Lines 168 to 171: \<open>Object.entries(config)\<close> throws on a missing \<open>config\<close>,
  \<open>value.value\<close> on a nullish entry.
\<close>

fun config_values :: "config_t \<Rightarrow> string + (string \<times> string option) list" where
  "config_values [] = Inr []"
| "config_values ((k, v) # es) =
     (case v of
        Nullish \<Rightarrow> Inl ''Cannot read properties of undefined (reading 'value')''
      | Entry x \<Rightarrow>
          (case config_values es of Inl m \<Rightarrow> Inl m | Inr vs \<Rightarrow> Inr ((k, x) # vs)))"

definition configVars :: "config_t option \<Rightarrow> string + (string \<times> string option) list" where
  "configVars c =
     (case c of
        None \<Rightarrow> Inl ''Cannot convert undefined or null to object''
      | Some es \<Rightarrow> config_values es)"

text \<open>Whether line 150 (399) calls \<open>uuidv4()\<close> for the name; the token takes the next one.\<close>

definition name_is_generated :: "deploy_body \<Rightarrow> bool" where
  "name_is_generated b = (\<not> truthy (map_option trim (appname b)))"

definition app_name :: "env \<Rightarrow> deploy_body \<Rightarrow> string" where
  "app_name E b = generatedAppName (appname b) (bot_type b) (uuidv4 E 0)"

definition new_token :: "env \<Rightarrow> deploy_body \<Rightarrow> string" where
  "new_token E b = uuidv4 E (if name_is_generated b then 1 else 0)"

definition started :: string where
  "started = ''Deployment started successfully! Bot will be ready in 2 minutes.''"

text \<open>The \<open>catch\<close> of lines 205 to 211.\<close>

definition deployment_failed_1 :: "js_error \<Rightarrow> deployment list \<Rightarrow> remote_call list \<Rightarrow> result" where
  "deployment_failed_1 e docs cs =
     \<lparr>resp = JsonError 500 ''Deployment failed'' (Some (details_of e)),
      docs_after = docs, calls = cs,
      console = [(''Deployment error:'', details_of e)]\<rparr>"

text \<open>The \<open>try\<close> of lines 152 to 204.\<close>

definition provision_1 :: "env \<Rightarrow> deploy_body \<Rightarrow> deployment list \<Rightarrow> result" where
  "provision_1 E b docs =
     (let generated = app_name E b;
          key = getRandomHerokuKey E;
          create = CreateApp key generated
      in case heroku E create of
           Some e \<Rightarrow> deployment_failed_1 e docs [create]
         | None \<Rightarrow>
             (case configVars (config b) of
                Inl m \<Rightarrow> deployment_failed_1 (JsError None m) docs [create]
              | Inr vars \<Rightarrow>
                  (let patch = SetConfigVars key generated vars
                   in case heroku E patch of
                        Some e \<Rightarrow> deployment_failed_1 e docs [create, patch]
                      | None \<Rightarrow>
                          (let build = TriggerBuild key generated
                                         (REPOSITORIES (template_str (bot_type b)))
                           in case heroku E build of
                                Some e \<Rightarrow> deployment_failed_1 e docs [create, patch, build]
                              | None \<Rightarrow>
                                  (case db_fault E InsertOne of
                                     Some m \<Rightarrow>
                                       deployment_failed_1 (JsError None m) docs
                                         [create, patch, build]
                                   | None \<Rightarrow>
                                       \<lparr>resp = DeployStarted started (new_token E b) None,
                                        docs_after = insertOne docs
                                          \<lparr>d_username = toLowerCase (the (username b)),
                                           d_name = generated,
                                           d_type = bot_type b,
                                           d_token = new_token E b,
                                           d_createdAt = now E,
                                           d_session_id = None,
                                           d_config = None\<rparr>,
                                        calls = [create, patch, build],
                                        console = []\<rparr>)))))"

text \<open>The \<open>catch\<close> of lines 423 to 429.\<close>

definition deployment_failed_2 :: "string \<Rightarrow> deployment list \<Rightarrow> result" where
  "deployment_failed_2 m docs =
     \<lparr>resp = JsonError 500 ''Deployment failed'' (Some m),
      docs_after = docs, calls = [],
      console = [(''Deployment error:'', m)]\<rparr>"

text \<open>The \<open>try\<close> of lines 401 to 422.\<close>

definition provision_2 :: "env \<Rightarrow> deploy_body \<Rightarrow> deployment list \<Rightarrow> result" where
  "provision_2 E b docs =
     (let generated = app_name E b;
          token = new_token E b
      in case db_fault E InsertOne of
           Some m \<Rightarrow> deployment_failed_2 m docs
         | None \<Rightarrow>
             (case insertOne_unique docs
                     \<lparr>d_username = toLowerCase (the (username b)),
                      d_name = generated,
                      d_type = bot_type b,
                      d_token = token,
                      d_createdAt = now E,
                      d_session_id = session_id b,
                      d_config = config b\<rparr> of
                Inl m \<Rightarrow> deployment_failed_2 m docs
              | Inr docs' \<Rightarrow>
                  \<lparr>resp = DeployStarted started token (Some generated),
                   docs_after = docs', calls = [], console = []\<rparr>))"

subsection \<open>\<open>POST /deploy\<close>\<close>

definition plain :: "response \<Rightarrow> deployment list \<Rightarrow> result" where
  "plain r docs = \<lparr>resp = r, docs_after = docs, calls = [], console = []\<rparr>"

text \<open>What was called and logged before a step, put in front of what the step did.\<close>

definition after :: "remote_call list \<Rightarrow> (string \<times> string) list \<Rightarrow> result \<Rightarrow> result" where
  "after cs lg r = r\<lparr>calls := cs @ calls r, console := lg @ console r\<rparr>"

definition post_deploy ::
  "string \<Rightarrow> (env \<Rightarrow> deploy_body \<Rightarrow> deployment list \<Rightarrow> result) \<Rightarrow>
   env \<Rightarrow> deploy_body \<Rightarrow> deployment list \<Rightarrow> result" where
  "post_deploy url provision E b docs =
     (if \<not> truthy (username b)
      then plain (JsonError 400 ''GitHub username is required'' None) docs
      else if \<not> truthy (session_id b)
      then plain (JsonError 400 ''SESSION_ID is required'' None) docs
      else case check_deployment_limit E url (the (username b)) docs of
             (Some r, cs, lg) \<Rightarrow> after cs lg (plain r docs)
           | (None, cs, lg) \<Rightarrow> after cs lg (provision E b docs))"

text \<open>Lines 113 to 212.\<close>

definition post_deploy_1 :: "env \<Rightarrow> deploy_body \<Rightarrow> deployment list \<Rightarrow> result" where
  "post_deploy_1 = post_deploy pro_url_1 provision_1"

text \<open>Lines 360 to 430.\<close>

definition post_deploy_2 :: "env \<Rightarrow> deploy_body \<Rightarrow> deployment list \<Rightarrow> result" where
  "post_deploy_2 = post_deploy pro_url_2 provision_2"

subsection \<open>\<open>GET /api/bots\<close> (lines 50 to 72 and 298 to 320)\<close>

definition internal_error :: "string \<Rightarrow> string \<Rightarrow> deployment list \<Rightarrow> remote_call list \<Rightarrow> result" where
  "internal_error label m docs cs =
     \<lparr>resp = JsonError 500 ''Internal server error'' None,
      docs_after = docs, calls = cs, console = [(label, m)]\<rparr>"


subsection \<open>\<open>DELETE /api/bots/:appName\<close>\<close>

text \<open>Lines 75 to 110: the provider is asked to delete the app before the document goes.\<close>

definition delete_bot_1 :: "env \<Rightarrow> string \<Rightarrow> string option \<Rightarrow> deployment list \<Rightarrow> result" where
  "delete_bot_1 E appName token docs =
     (if \<not> truthy token then plain (JsonError 400 ''Token is required'' None) docs
      else case db_fault E FindOne of
             Some m \<Rightarrow> internal_error ''Error deleting bot:'' m docs []
           | None \<Rightarrow>
               (case findOne docs (the token) of
                  None \<Rightarrow> plain (JsonError 404 ''Invalid token'' None) docs
                | Some deployment \<Rightarrow>
                    if d_name deployment \<noteq> appName
                    then plain (JsonError 403 ''Not authorized to delete this app'' None) docs
                    else
                      (let del = DeleteApp (getRandomHerokuKey E) appName
                       in case heroku E del of
                            Some e \<Rightarrow>
                              internal_error ''Error deleting bot:'' (message e) docs [del]
                          | None \<Rightarrow>
                              (case db_fault E DeleteOne of
                                 Some m \<Rightarrow>
                                   internal_error ''Error deleting bot:'' m docs [del]
                               | None \<Rightarrow>
                                   \<lparr>resp = MessageOk ''App deleted successfully'',
                                    docs_after = deleteOne docs appName,
                                    calls = [del], console = []\<rparr>))))"

text \<open>Lines 323 to 357: the call to the provider is commented out.\<close>

definition delete_bot_2 :: "env \<Rightarrow> string \<Rightarrow> string option \<Rightarrow> deployment list \<Rightarrow> result" where
  "delete_bot_2 E appName token docs =
     (if \<not> truthy token then plain (JsonError 400 ''Token is required'' None) docs
      else case db_fault E FindOne of
             Some m \<Rightarrow> internal_error ''Error deleting bot:'' m docs []
           | None \<Rightarrow>
               (case findOne docs (the token) of
                  None \<Rightarrow> plain (JsonError 404 ''Invalid token'' None) docs
                | Some deployment \<Rightarrow>
                    if d_name deployment \<noteq> appName
                    then plain (JsonError 403 ''Not authorized to delete this app'' None) docs
                    else
                      (case db_fault E DeleteOne of
                         Some m \<Rightarrow> internal_error ''Error deleting bot:'' m docs []
                       | None \<Rightarrow>
                           \<lparr>resp = MessageOk ''App deleted successfully'',
                            docs_after = deleteOne docs appName,
                            calls = [], console = []\<rparr>)))"

section \<open>Notions the properties are stated with\<close>

text \<open>Two hyphens side by side.\<close>

fun adjacent_hyphens :: "string \<Rightarrow> bool" where
  "adjacent_hyphens [] = False"
| "adjacent_hyphens [c] = False"
| "adjacent_hyphens (c # d # s) =
     ((c = CHR ''-'' \<and> d = CHR ''-'') \<or> adjacent_hyphens (d # s))"

text \<open>The character class \<open>[0-9a-f]\<close>.\<close>

definition is_hex :: "char \<Rightarrow> bool" where
  "is_hex c =
     (let n = (of_char c :: nat) in (48 \<le> n \<and> n \<le> 57) \<or> (97 \<le> n \<and> n \<le> 102))"

text \<open>
  The text \<open>uuidv4()\<close> of the package uuid returns: 36 characters, hyphens at
  positions 8, 13, 18 and 23, lower-case hexadecimal digits elsewhere.
\<close>

definition is_uuid :: "string \<Rightarrow> bool" where
  "is_uuid u =
     (length u = 36 \<and>
      list_all (\<lambda>i. if i \<in> {8, 13, 18, 23} then u ! i = CHR ''-'' else is_hex (u ! i))
        [0..<36])"

text \<open>
  The quota in the words of the specification: the number of stored deployments of the
  owner, compared without regard to case, and the limit that holds for the owner.
\<close>

definition spec_prior_count :: "deployment list \<Rightarrow> string \<Rightarrow> nat" where
  "spec_prior_count docs owner =
     length (filter (\<lambda>d. toLowerCase (d_username d) = toLowerCase owner) docs)"

definition spec_quota_limit :: "js_error + pro_user list \<Rightarrow> string \<Rightarrow> int" where
  "spec_quota_limit fetched owner =
     (case fetched of
        Inl e \<Rightarrow> 2
      | Inr entries \<Rightarrow>
          (case find (\<lambda>p. map_option toLowerCase (pu_username p) = Some (toLowerCase owner))
                  entries of
             None \<Rightarrow> 2
           | Some p \<Rightarrow>
               (case pu_limit p of None \<Rightarrow> 5 | Some l \<Rightarrow> if l = 0 then 5 else l)))"

text \<open>A fetched allow-list is well formed when every entry has a \<open>username\<close>.\<close>

definition well_formed :: "js_error + pro_user list \<Rightarrow> bool" where
  "well_formed fetched =
     (case fetched of
        Inl e \<Rightarrow> True
      | Inr entries \<Rightarrow> list_all (\<lambda>p. pu_username p \<noteq> None) entries)"

text \<open>
  The limit as the handlers reach it, in words: the entries of a fetched allow-list are
  read in order up to the first one that has no \<open>username\<close> or that names the owner.
  If that entry names the owner its limit holds, 5 standing in for an absent or zero
  limit; if it has no \<open>username\<close>, if there is no such entry, or if the fetch failed,
  the limit is 2.
\<close>

definition quota_limit :: "js_error + pro_user list \<Rightarrow> string \<Rightarrow> int" where
  "quota_limit fetched owner =
     (case fetched of
        Inl e \<Rightarrow> 2
      | Inr entries \<Rightarrow>
          (case find (\<lambda>p. pu_username p = None \<or>
                         map_option toLowerCase (pu_username p) = Some (toLowerCase owner))
                  entries of
             None \<Rightarrow> 2
           | Some p \<Rightarrow>
               if pu_username p = None then 2
               else (case pu_limit p of None \<Rightarrow> 5 | Some l \<Rightarrow> if l = 0 then 5 else l)))"

text \<open>Every stored owner is in lower case, as lines 193 and 408 write it.\<close>

definition stored_lower :: "deployment list \<Rightarrow> bool" where
  "stored_lower docs = list_all (\<lambda>d. d_username d = toLowerCase (d_username d)) docs"

text \<open>The two responses of the validation at lines 116 to 122.\<close>

definition validation_error :: "response \<Rightarrow> bool" where
  "validation_error r =
     (r = JsonError 400 ''GitHub username is required'' None \<or>
      r = JsonError 400 ''SESSION_ID is required'' None)"

text \<open>The three calls of a provisioning, as lines 162 to 188 build them.\<close>

definition create_call :: "env \<Rightarrow> deploy_body \<Rightarrow> remote_call" where
  "create_call E b = CreateApp (getRandomHerokuKey E) (app_name E b)"

definition patch_call :: "env \<Rightarrow> deploy_body \<Rightarrow> (string \<times> string option) list \<Rightarrow> remote_call" where
  "patch_call E b vars = SetConfigVars (getRandomHerokuKey E) (app_name E b) vars"

definition build_call :: "env \<Rightarrow> deploy_body \<Rightarrow> remote_call" where
  "build_call E b =
     TriggerBuild (getRandomHerokuKey E) (app_name E b)
       (REPOSITORIES (template_str (bot_type b)))"

text \<open>The \<open>.value\<close> of an entry that has one to read.\<close>

fun entry_value :: "config_entry \<Rightarrow> string option" where
  "entry_value Nullish = None"
| "entry_value (Entry v) = v"

section \<open>Sample requests\<close>

definition uuid_a :: string where
  "uuid_a = ''0a1b2c3d-1111-4111-8111-111111111111''"

definition uuid_b :: string where
  "uuid_b = ''9f8e7d6c-2222-4222-9222-222222222222''"

definition pro_list :: "pro_user list" where
  "pro_list =
     [\<lparr>pu_username = Some ''Bob'', pu_limit = Some 10\<rparr>,
      \<lparr>pu_username = Some ''ALICE'', pu_limit = Some 0\<rparr>]"

definition env_ok :: env where
  "env_ok =
     \<lparr>db_fault = (\<lambda>op. None),
      axios_get = (\<lambda>url. Inr pro_list),
      heroku = (\<lambda>c. None),
      getRandomHerokuKey = ''key-1'',
      uuidv4 = (\<lambda>n. if n = 0 then uuid_a else uuid_b),
      now = 17\<rparr>"

definition network_error :: js_error where
  "network_error = JsError None ''Network Error''"

definition not_found :: js_error where
  "not_found =
     JsError (Some ''not_found: Couldn't find that app.'')
       ''Request failed with status code 404''"

definition body_alice :: deploy_body where
  "body_alice =
     \<lparr>username = Some ''Alice'', session_id = Some ''sess-1'',
      appname = Some ''My Bot!!'', bot_type = Some ''khan'',
      config = Some [(''PREFIX'', Entry (Some ''.''))]\<rparr>"

definition stored :: "string \<Rightarrow> string \<Rightarrow> string \<Rightarrow> deployment" where
  "stored owner app token =
     \<lparr>d_username = owner, d_name = app, d_type = Some ''khan'', d_token = token,
      d_createdAt = 3, d_session_id = None, d_config = None\<rparr>"

definition docs_three :: "deployment list" where
  "docs_three =
     [stored ''alice'' ''alice-one'' ''tok-a1'',
      stored ''bob'' ''bob-one'' ''tok-b1'',
      stored ''alice'' ''alice-two'' ''tok-a2'']"

definition env_fetch_down :: env where
  "env_fetch_down = env_ok\<lparr>axios_get := (\<lambda>url. Inl network_error)\<rparr>"

definition env_count_down :: env where
  "env_count_down =
     env_fetch_down
       \<lparr>db_fault := (\<lambda>op. if op = CountDocuments then Some ''connection closed'' else None)\<rparr>"

definition env_insert_down :: env where
  "env_insert_down =
     env_ok\<lparr>db_fault := (\<lambda>op. if op = InsertOne then Some ''connection closed'' else None)\<rparr>"

definition env_app_gone :: env where
  "env_app_gone = env_ok\<lparr>heroku := (\<lambda>c. Some not_found)\<rparr>"

definition invalid_params :: js_error where
  "invalid_params =
     JsError (Some ''invalid_params: Name is already taken'')
       ''Request failed with status code 422''"

definition env_name_taken :: env where
  "env_name_taken = env_ok\<lparr>heroku := (\<lambda>c. Some invalid_params)\<rparr>"

definition pro_list_nameless :: "pro_user list" where
  "pro_list_nameless =
     [\<lparr>pu_username = None, pu_limit = Some 7\<rparr>,
      \<lparr>pu_username = Some ''alice'', pu_limit = Some 10\<rparr>]"

definition env_nameless :: env where
  "env_nameless = env_ok\<lparr>axios_get := (\<lambda>url. Inr pro_list_nameless)\<rparr>"

definition body_foo :: deploy_body where
  "body_foo = body_alice\<lparr>bot_type := Some ''foo''\<rparr>"

section \<open>Strings\<close>

lemma lower_char_idem: "lower_char (lower_char c) = lower_char c"
  by (simp add: lower_char_def Let_def)

lemma toLowerCase_idem: "toLowerCase (toLowerCase s) = toLowerCase s"
  by (simp add: toLowerCase_def lower_char_idem)

lemma name_char_hyphen: "name_char (CHR ''-'')"
  by (simp add: name_char_def)

lemma replace_invalid_chars: "c \<in> set (replace_invalid s) \<Longrightarrow> name_char c"
  by (auto simp: replace_invalid_def name_char_hyphen)

lemma collapse_hyphens_subset: "set (collapse_hyphens s) \<subseteq> set s"
  by (induction s rule: collapse_hyphens.induct) auto

lemma collapse_hyphens_head: "\<exists>t. collapse_hyphens (c # s) = c # t"
  by (induction s arbitrary: c) auto

lemma collapse_hyphens_no_adjacent: "\<not> adjacent_hyphens (collapse_hyphens s)"
proof (induction s rule: collapse_hyphens.induct)
  case 1
  show ?case by simp
next
  case (2 c)
  show ?case by simp
next
  case (3 c d s)
  obtain t where t: "collapse_hyphens (d # s) = d # t"
    using collapse_hyphens_head by blast
  show ?case
  proof (cases "c = CHR ''-'' \<and> d = CHR ''-''")
    case True
    with 3 show ?thesis by simp
  next
    case False
    with 3 t show ?thesis by auto
  qed
qed

lemma is_uuid_prefix:
  assumes "is_uuid u"
  shows "length (take 6 u) = 6 \<and> list_all is_hex (take 6 u)"
proof -
  from assms have len: "length u = 36"
    and all: "\<forall>i < 36. if i \<in> {8, 13, 18, 23} then u ! i = CHR ''-'' else is_hex (u ! i)"
    by (auto simp: is_uuid_def list_all_iff)
  have "is_hex c" if "c \<in> set (take 6 u)" for c
  proof -
    from that obtain i where i: "i < 6" "c = u ! i"
      using len by (auto simp: in_set_conv_nth)
    with all have "if i \<in> {8, 13, 18, 23} then u ! i = CHR ''-'' else is_hex (u ! i)"
      by simp
    with i show ?thesis by auto
  qed
  with len show ?thesis by (simp add: list_all_iff)
qed

section \<open>The generated name\<close>

text \<open>
  Claim C3, as amended. A requested name that is not empty after trimming is trimmed,
  lower-cased, every character outside \<open>[a-z0-9-]\<close> is replaced by a hyphen and runs
  of hyphens are collapsed: the result has characters of that class only and no two
  hyphens side by side. Nothing strips a hyphen at the end, so \<open>My Bot!!\<close> gives
  \<open>my-bot-\<close>. For a name that is absent or empty after trimming the result is the bot
  type (the text \<open>undefined\<close> when it is absent), then \<open>md-\<close>, then the first six
  characters of a fresh UUID, which are six hexadecimal digits.
\<close>

theorem generatedAppName_shape:
  "(truthy (map_option trim requested) \<longrightarrow>
      generatedAppName requested bt uuid =
        collapse_hyphens (replace_invalid (toLowerCase (trim (the requested)))) \<and>
      (\<forall>c \<in> set (generatedAppName requested bt uuid). name_char c) \<and>
      \<not> adjacent_hyphens (generatedAppName requested bt uuid)) \<and>
   generatedAppName (Some ''My Bot!!'') bt uuid = ''my-bot-'' \<and>
   (\<not> truthy (map_option trim requested) \<longrightarrow>
      generatedAppName requested bt uuid = template_str bt @ ''md-'' @ take 6 uuid \<and>
      (is_uuid uuid \<longrightarrow> length (take 6 uuid) = 6 \<and> list_all is_hex (take 6 uuid)))"
proof -
  have a: "generatedAppName (Some ''My Bot!!'') bt uuid = ''my-bot-''"
    by code_simp
  have b: "\<forall>c \<in> set (collapse_hyphens (replace_invalid s)). name_char c" for s
    using collapse_hyphens_subset replace_invalid_chars by blast
  show ?thesis
    using a b collapse_hyphens_no_adjacent is_uuid_prefix
    by (simp add: generatedAppName_def)
qed

theorem my_bot_counterexample:
  "generatedAppName (Some ''My Bot!!'') (Some ''khan'') uuid_a \<noteq> ''my-bot''"
  by code_simp

theorem generatedAppName_shape_witness:
  "truthy (map_option trim (Some '' A  b__C '')) \<and>
   generatedAppName (Some '' A  b__C '') (Some ''khan'') uuid_a = ''a-b-c'' \<and>
   \<not> adjacent_hyphens (generatedAppName (Some '' A  b__C '') (Some ''khan'') uuid_a) \<and>
   \<not> truthy (map_option trim (Some ''   '')) \<and> is_uuid uuid_a \<and>
   generatedAppName (Some ''   '') (Some ''khan'') uuid_a = ''khanmd-0a1b2c'' \<and>
   list_all is_hex (take 6 uuid_a)"
proof -
  have t: "truthy (map_option trim (Some '' A  b__C ''))" by code_simp
  have e: "\<not> truthy (map_option trim (Some ''   ''))" by code_simp
  have u: "is_uuid uuid_a" by code_simp
  have v: "collapse_hyphens (replace_invalid (toLowerCase (trim (the (Some '' A  b__C ''))))) = ''a-b-c''"
    by code_simp
  have w: "template_str (Some ''khan'') @ ''md-'' @ take 6 uuid_a = ''khanmd-0a1b2c''"
    by code_simp
  from generatedAppName_shape [of "Some '' A  b__C ''" "Some ''khan''" uuid_a] t
  have 1: "generatedAppName (Some '' A  b__C '') (Some ''khan'') uuid_a =
             collapse_hyphens (replace_invalid (toLowerCase (trim (the (Some '' A  b__C ''))))) \<and>
           \<not> adjacent_hyphens (generatedAppName (Some '' A  b__C '') (Some ''khan'') uuid_a)"
    by blast
  from generatedAppName_shape [of "Some ''   ''" "Some ''khan''" uuid_a] e u
  have 2: "generatedAppName (Some ''   '') (Some ''khan'') uuid_a =
             template_str (Some ''khan'') @ ''md-'' @ take 6 uuid_a \<and>
           list_all is_hex (take 6 uuid_a)"
    by blast
  from 1 v have 3: "generatedAppName (Some '' A  b__C '') (Some ''khan'') uuid_a = ''a-b-c''"
    by (rule_tac trans) (erule conjunct1)
  from 2 w have 4: "generatedAppName (Some ''   '') (Some ''khan'') uuid_a = ''khanmd-0a1b2c''"
    by (rule_tac trans) (erule conjunct1)
  from t e u 1 2 3 4 show ?thesis by blast
qed

section \<open>Results of the handlers\<close>

lemma docs_after_after: "docs_after (after cs lg r) = docs_after r"
  by (simp add: after_def)

lemma calls_after: "calls (after cs lg r) = cs @ calls r"
  by (simp add: after_def)

lemma resp_after: "resp (after cs lg r) = resp r"
  by (simp add: after_def)

lemma provision_1_not_400: "resp (provision_1 E b docs) \<noteq> JsonError 400 m d"
  by (simp add: provision_1_def deployment_failed_1_def Let_def split: option.splits sum.splits)

lemma provision_2_not_400: "resp (provision_2 E b docs) \<noteq> JsonError 400 m d"
  by (simp add: provision_2_def deployment_failed_2_def Let_def split: option.splits sum.splits)

lemma check_deployment_limit_Some:
  "check_deployment_limit E url u docs = (Some r, cs, lg) \<Longrightarrow> \<exists>m. r = JsonError 400 m None"
  by (auto simp: check_deployment_limit_def Let_def split: option.splits prod.splits if_splits)

lemma post_deploy_started:
  assumes "resp (post_deploy url provision E b docs) = DeployStarted m t a"
  shows "truthy (username b) \<and> truthy (session_id b) \<and>
         resp (provision E b docs) = DeployStarted m t a \<and>
         docs_after (post_deploy url provision E b docs) = docs_after (provision E b docs)"
proof (cases "check_deployment_limit E url (the (username b)) docs")
  case (fields r cs lg)
  show ?thesis
  proof (cases r)
    case None
    with fields assms show ?thesis
      by (auto simp: post_deploy_def resp_after docs_after_after plain_def split: if_splits)
  next
    case (Some x)
    with fields obtain m' where "x = JsonError 400 m' None"
      using check_deployment_limit_Some by blast
    with Some fields assms show ?thesis
      by (auto simp: post_deploy_def resp_after plain_def split: if_splits)
  qed
qed

lemma limit_message_not_validation: "\<not> validation_error (JsonError 400 (limit_message n l) None)"
  by (simp add: validation_error_def limit_message_def)

lemma post_deploy_not_validation:
  assumes "truthy (username b)" "truthy (session_id b)"
    and "\<And>m d. resp (provision E b docs) \<noteq> JsonError 400 m d"
  shows "\<not> validation_error (resp (post_deploy url provision E b docs))"
proof (cases "check_deployment_limit E url (the (username b)) docs")
  case (fields r cs lg)
  show ?thesis
  proof (cases r)
    case None
    with fields assms show ?thesis
      by (simp add: post_deploy_def resp_after validation_error_def)
  next
    case (Some x)
    with fields have "x = JsonError 400 (limit_message (countDocuments docs (toLowerCase (the (username b))))
         (fst (userLimit (axios_get E url) (the (username b))))) None"
      by (auto simp: check_deployment_limit_def Let_def split: option.splits prod.splits if_splits)
    with Some fields assms(1,2) show ?thesis
      using limit_message_not_validation
      by (simp add: post_deploy_def resp_after plain_def)
  qed
qed

section \<open>Validation\<close>

text \<open>
  Claim C2, as amended. Both revisions validate in this order and before any call or
  write: a missing (absent or empty) owner is refused with status 400 and
  \<open>GitHub username is required\<close>; otherwise a missing session identifier is refused
  with status 400 and \<open>SESSION_ID is required\<close>. The bot type is not validated: a
  request with an owner and a session identifier is never refused by the validation,
  whatever its bot type, and goes on to the check of the deployment limit (whose first
  call is the fetch of the allow-list when the count succeeds).
\<close>

theorem deploy_validation:
  "(\<not> truthy (username b) \<longrightarrow>
      post_deploy_1 E b docs = plain (JsonError 400 ''GitHub username is required'' None) docs \<and>
      post_deploy_2 E b docs = plain (JsonError 400 ''GitHub username is required'' None) docs) \<and>
   (truthy (username b) \<and> \<not> truthy (session_id b) \<longrightarrow>
      post_deploy_1 E b docs = plain (JsonError 400 ''SESSION_ID is required'' None) docs \<and>
      post_deploy_2 E b docs = plain (JsonError 400 ''SESSION_ID is required'' None) docs) \<and>
   (truthy (username b) \<and> truthy (session_id b) \<longrightarrow>
      \<not> validation_error (resp (post_deploy_1 E b docs)) \<and>
      \<not> validation_error (resp (post_deploy_2 E b docs)) \<and>
      (db_fault E CountDocuments = None \<longrightarrow>
         (\<exists>cs. calls (post_deploy_1 E b docs) = GetJson pro_url_1 # cs) \<and>
         (\<exists>cs. calls (post_deploy_2 E b docs) = GetJson pro_url_2 # cs)))"
proof -
  have a: "\<not> validation_error (resp (post_deploy_1 E b docs))"
    if "truthy (username b)" "truthy (session_id b)"
    unfolding post_deploy_1_def
    using that provision_1_not_400 by (rule post_deploy_not_validation)
  have b: "\<not> validation_error (resp (post_deploy_2 E b docs))"
    if "truthy (username b)" "truthy (session_id b)"
    unfolding post_deploy_2_def
    using that provision_2_not_400 by (rule post_deploy_not_validation)
  have c: "\<exists>cs. calls (post_deploy url provision E b docs) = GetJson url # cs"
    if "truthy (username b)" "truthy (session_id b)" "db_fault E CountDocuments = None"
    for url provision
    using that
    by (simp add: post_deploy_def check_deployment_limit_def Let_def after_def plain_def
          split: prod.splits)
  show ?thesis
    using a b c [of pro_url_1 provision_1] c [of pro_url_2 provision_2]
    by (simp add: post_deploy_1_def post_deploy_2_def post_deploy_def)
qed

theorem deploy_validation_witness:
  "\<not> truthy (username (body_alice\<lparr>username := None\<rparr>)) \<and>
   post_deploy_1 env_ok (body_alice\<lparr>username := None\<rparr>) docs_three =
     \<lparr>resp = JsonError 400 ''GitHub username is required'' None, docs_after = docs_three,
      calls = [], console = []\<rparr> \<and>
   truthy (username (body_alice\<lparr>session_id := Some ''''\<rparr>)) \<and>
   \<not> truthy (session_id (body_alice\<lparr>session_id := Some ''''\<rparr>)) \<and>
   post_deploy_2 env_ok (body_alice\<lparr>session_id := Some ''''\<rparr>) docs_three =
     \<lparr>resp = JsonError 400 ''SESSION_ID is required'' None, docs_after = docs_three,
      calls = [], console = []\<rparr> \<and>
   truthy (username body_foo) \<and> truthy (session_id body_foo) \<and>
   \<not> validation_error (resp (post_deploy_1 env_ok body_foo docs_three)) \<and>
   \<not> validation_error (resp (post_deploy_2 env_ok body_foo docs_three)) \<and>
   (\<exists>cs. calls (post_deploy_1 env_ok body_foo docs_three) = GetJson pro_url_1 # cs)"
proof -
  have u0: "\<not> truthy (username (body_alice\<lparr>username := None\<rparr>))" by code_simp
  have u1: "truthy (username (body_alice\<lparr>session_id := Some ''''\<rparr>))" by code_simp
  have s1: "\<not> truthy (session_id (body_alice\<lparr>session_id := Some ''''\<rparr>))" by code_simp
  have u2: "truthy (username body_foo)" by code_simp
  have s2: "truthy (session_id body_foo)" by code_simp
  have c: "db_fault env_ok CountDocuments = None" by code_simp
  from deploy_validation [of "body_alice\<lparr>username := None\<rparr>" env_ok docs_three] u0
  have 1: "post_deploy_1 env_ok (body_alice\<lparr>username := None\<rparr>) docs_three =
     plain (JsonError 400 ''GitHub username is required'' None) docs_three"
    by blast
  from deploy_validation [of "body_alice\<lparr>session_id := Some ''''\<rparr>" env_ok docs_three] u1 s1
  have 2: "post_deploy_2 env_ok (body_alice\<lparr>session_id := Some ''''\<rparr>) docs_three =
     plain (JsonError 400 ''SESSION_ID is required'' None) docs_three"
    by blast
  from deploy_validation [of body_foo env_ok docs_three] u2 s2 c
  have 3: "\<not> validation_error (resp (post_deploy_1 env_ok body_foo docs_three)) \<and>
   \<not> validation_error (resp (post_deploy_2 env_ok body_foo docs_three)) \<and>
   (\<exists>cs. calls (post_deploy_1 env_ok body_foo docs_three) = GetJson pro_url_1 # cs)"
    by blast
  from u0 u1 s1 u2 s2 1 2 3 show ?thesis
    unfolding plain_def by blast
qed

theorem unsupported_bot_type_counterexample:
  "REPOSITORIES (template_str (bot_type body_foo)) = None \<and>
   resp (post_deploy_1 env_ok body_foo []) = DeployStarted started uuid_a None \<and>
   calls (post_deploy_1 env_ok body_foo []) =
     [GetJson pro_url_1, CreateApp ''key-1'' ''my-bot-'',
      SetConfigVars ''key-1'' ''my-bot-'' [(''PREFIX'', Some ''.'')],
      TriggerBuild ''key-1'' ''my-bot-'' None] \<and>
   resp (post_deploy_2 env_ok body_foo []) = DeployStarted started uuid_a (Some ''my-bot-'')"
  by code_simp

section \<open>The deployment limit\<close>

text \<open>Both revisions keep the stored owners in lower case.\<close>

lemma stored_lower_snoc:
  "stored_lower docs \<Longrightarrow> d_username d = toLowerCase u \<Longrightarrow> stored_lower (docs @ [d])"
  by (simp add: stored_lower_def toLowerCase_idem)

lemma provision_1_keeps_lower:
  "stored_lower docs \<Longrightarrow> stored_lower (docs_after (provision_1 E b docs))"
  by (auto simp: provision_1_def Let_def deployment_failed_1_def insertOne_def
        intro: stored_lower_snoc split: option.splits sum.splits)

lemma provision_2_keeps_lower:
  "stored_lower docs \<Longrightarrow> stored_lower (docs_after (provision_2 E b docs))"
  by (auto simp: provision_2_def Let_def deployment_failed_2_def insertOne_unique_def
        intro: stored_lower_snoc split: option.splits sum.splits if_splits)

lemma post_deploy_keeps_lower:
  assumes "stored_lower docs"
    and "stored_lower (docs_after (provision E b docs))"
  shows "stored_lower (docs_after (post_deploy url provision E b docs))"
  using assms
  by (cases "check_deployment_limit E url (the (username b)) docs")
     (auto simp: post_deploy_def plain_def after_def split: option.splits)

lemma post_deploy_1_keeps_lower:
  "stored_lower docs \<Longrightarrow> stored_lower (docs_after (post_deploy_1 E b docs))"
  unfolding post_deploy_1_def
  by (rule post_deploy_keeps_lower) (simp_all add: provision_1_keeps_lower)

lemma post_deploy_2_keeps_lower:
  "stored_lower docs \<Longrightarrow> stored_lower (docs_after (post_deploy_2 E b docs))"
  unfolding post_deploy_2_def
  by (rule post_deploy_keeps_lower) (simp_all add: provision_2_keeps_lower)

lemma countDocuments_spec:
  "stored_lower docs \<Longrightarrow> countDocuments docs (toLowerCase u) = spec_prior_count docs u"
proof -
  assume "stored_lower docs"
  then have "d_username d = toLowerCase u \<longleftrightarrow> toLowerCase (d_username d) = toLowerCase u"
    if "d \<in> set docs" for d
    using that toLowerCase_idem [of u] by (auto simp: stored_lower_def list_all_iff)
  then have "filter (\<lambda>d. d_username d = toLowerCase u) docs =
             filter (\<lambda>d. toLowerCase (d_username d) = toLowerCase u) docs"
    by (intro filter_cong) auto
  then show ?thesis
    by (simp add: countDocuments_def spec_prior_count_def)
qed

lemma find_proUser_read:
  "find_proUser ps u =
     (case find (\<lambda>p. pu_username p = None \<or>
                     map_option toLowerCase (pu_username p) = Some (toLowerCase u)) ps of
        None \<Rightarrow> Inr None
      | Some p \<Rightarrow>
          if pu_username p = None
          then Inl ''Cannot read properties of undefined (reading 'toLowerCase')''
          else Inr (Some p))"
  by (induction ps) (auto split: option.splits)

lemma userLimit_quota_limit: "fst (userLimit fetched u) = quota_limit fetched u"
  by (auto simp: userLimit_def quota_limit_def proUser_limit_def find_proUser_read
        split: sum.splits option.splits)

lemma find_named:
  "list_all (\<lambda>p. pu_username p \<noteq> None) ps \<Longrightarrow>
   find (\<lambda>p. pu_username p = None \<or> Q p) ps = find Q ps"
  by (induction ps) auto

lemma quota_limit_well_formed:
  "well_formed fetched \<Longrightarrow> quota_limit fetched u = spec_quota_limit fetched u"
proof (cases fetched)
  case (Inl e)
  then show ?thesis by (simp add: quota_limit_def spec_quota_limit_def)
next
  case (Inr ps)
  assume "well_formed fetched"
  with Inr have named: "list_all (\<lambda>p. pu_username p \<noteq> None) ps"
    by (simp add: well_formed_def)
  let ?Q = "\<lambda>p. map_option toLowerCase (pu_username p) = Some (toLowerCase u)"
  have f: "find (\<lambda>p. pu_username p = None \<or> ?Q p) ps = find ?Q ps"
    using named by (rule find_named)
  have "pu_username p \<noteq> None" if "find ?Q ps = Some p" for p
    using that by (auto simp: find_Some_iff)
  with Inr f show ?thesis
    by (auto simp: quota_limit_def spec_quota_limit_def split: option.splits)
qed

lemma post_deploy_limit:
  assumes "truthy (username b)" "truthy (session_id b)" "db_fault E CountDocuments = None"
  shows "post_deploy url provision E b docs =
    (let n = countDocuments docs (toLowerCase (the (username b)));
         ul = userLimit (axios_get E url) (the (username b))
     in after [GetJson url] (snd ul)
          (if int n < fst ul then provision E b docs
           else plain (JsonError 400 (limit_message n (fst ul)) None) docs))"
  using assms
  by (simp add: post_deploy_def check_deployment_limit_def Let_def split: prod.splits)

lemma post_deploy_quota:
  assumes "truthy (username b)" "truthy (session_id b)" "db_fault E CountDocuments = None"
    and "\<And>m d. resp (provision E b docs) \<noteq> JsonError 400 m d"
  shows
   "((\<exists>m. resp (post_deploy url provision E b docs) = JsonError 400 m None) \<longleftrightarrow>
       \<not> int (countDocuments docs (toLowerCase (the (username b)))) <
           quota_limit (axios_get E url) (the (username b))) \<and>
    (int (countDocuments docs (toLowerCase (the (username b)))) <
       quota_limit (axios_get E url) (the (username b)) \<longrightarrow>
     post_deploy url provision E b docs =
       after [GetJson url] (snd (userLimit (axios_get E url) (the (username b))))
         (provision E b docs)) \<and>
    (\<not> int (countDocuments docs (toLowerCase (the (username b)))) <
       quota_limit (axios_get E url) (the (username b)) \<longrightarrow>
     resp (post_deploy url provision E b docs) =
       JsonError 400
         (''You've reached the maximum deployment limit ('' @
          show_nat (countDocuments docs (toLowerCase (the (username b)))) @ ''/'' @
          show_int (quota_limit (axios_get E url) (the (username b))) @
          ''). Please contact admin.'') None \<and>
     docs_after (post_deploy url provision E b docs) = docs \<and>
     calls (post_deploy url provision E b docs) = [GetJson url])"
  unfolding post_deploy_limit [OF assms(1-3)] Let_def userLimit_quota_limit
  using assms(4)
  by (simp add: resp_after limit_message_def plain_def after_def)

text \<open>
  Claim C1, as amended. For a request that passes the validation, when the count of the
  owner's documents returns, each revision refuses the deployment with status 400
  exactly when the number of stored documents whose owner is the lower-cased owner of
  the request (the count without regard to case, stored owners being in lower case) is
  not below the limit, and otherwise goes on to provisioning. The limit is 2, unless
  the owner is in the fetched allow-list with no entry without \<open>username\<close> before the
  first entry that names the owner, whose limit then holds, 5 standing in for an absent
  or zero limit. A failed fetch, and an entry without \<open>username\<close> met before the
  owner's, leave 2 and the handler goes on. On a list where every entry has a
  \<open>username\<close> this is the limit of the specification. The message of the refusal
  holds the count and the limit, and a refused request makes no call but the fetch and
  leaves the collection as it is.
\<close>

theorem quota_check:
  assumes "truthy (username b)" and "truthy (session_id b)"
    and "db_fault E CountDocuments = None"
  shows
   "((\<exists>m. resp (post_deploy_1 E b docs) = JsonError 400 m None) \<longleftrightarrow>
       \<not> int (countDocuments docs (toLowerCase (the (username b)))) <
           quota_limit (axios_get E pro_url_1) (the (username b))) \<and>
    (int (countDocuments docs (toLowerCase (the (username b)))) <
       quota_limit (axios_get E pro_url_1) (the (username b)) \<longrightarrow>
     post_deploy_1 E b docs =
       after [GetJson pro_url_1] (snd (userLimit (axios_get E pro_url_1) (the (username b))))
         (provision_1 E b docs)) \<and>
    (\<not> int (countDocuments docs (toLowerCase (the (username b)))) <
       quota_limit (axios_get E pro_url_1) (the (username b)) \<longrightarrow>
     resp (post_deploy_1 E b docs) =
       JsonError 400
         (''You've reached the maximum deployment limit ('' @
          show_nat (countDocuments docs (toLowerCase (the (username b)))) @ ''/'' @
          show_int (quota_limit (axios_get E pro_url_1) (the (username b))) @
          ''). Please contact admin.'') None \<and>
     docs_after (post_deploy_1 E b docs) = docs \<and>
     calls (post_deploy_1 E b docs) = [GetJson pro_url_1]) \<and>
    ((\<exists>m. resp (post_deploy_2 E b docs) = JsonError 400 m None) \<longleftrightarrow>
       \<not> int (countDocuments docs (toLowerCase (the (username b)))) <
           quota_limit (axios_get E pro_url_2) (the (username b))) \<and>
    (int (countDocuments docs (toLowerCase (the (username b)))) <
       quota_limit (axios_get E pro_url_2) (the (username b)) \<longrightarrow>
     post_deploy_2 E b docs =
       after [GetJson pro_url_2] (snd (userLimit (axios_get E pro_url_2) (the (username b))))
         (provision_2 E b docs)) \<and>
    (\<not> int (countDocuments docs (toLowerCase (the (username b)))) <
       quota_limit (axios_get E pro_url_2) (the (username b)) \<longrightarrow>
     resp (post_deploy_2 E b docs) =
       JsonError 400
         (''You've reached the maximum deployment limit ('' @
          show_nat (countDocuments docs (toLowerCase (the (username b)))) @ ''/'' @
          show_int (quota_limit (axios_get E pro_url_2) (the (username b))) @
          ''). Please contact admin.'') None \<and>
     docs_after (post_deploy_2 E b docs) = docs \<and>
     calls (post_deploy_2 E b docs) = [GetJson pro_url_2]) \<and>
    (stored_lower docs \<longrightarrow>
       countDocuments docs (toLowerCase (the (username b))) =
         spec_prior_count docs (the (username b))) \<and>
    (well_formed fetched \<longrightarrow> quota_limit fetched owner = spec_quota_limit fetched owner) \<and>
    quota_limit (Inl e) owner = 2"
proof -
  have one: "\<And>m d. resp (provision_1 E b docs) \<noteq> JsonError 400 m d"
    by (rule provision_1_not_400)
  have two: "\<And>m d. resp (provision_2 E b docs) \<noteq> JsonError 400 m d"
    by (rule provision_2_not_400)
  note r1 = post_deploy_quota [where provision = provision_1 and url = pro_url_1,
      OF assms one, folded post_deploy_1_def]
  note r2 = post_deploy_quota [where provision = provision_2 and url = pro_url_2,
      OF assms two, folded post_deploy_2_def]
  have c: "stored_lower docs \<longrightarrow>
       countDocuments docs (toLowerCase (the (username b))) =
         spec_prior_count docs (the (username b))"
    by (simp add: countDocuments_spec)
  have w: "well_formed fetched \<longrightarrow> quota_limit fetched owner = spec_quota_limit fetched owner"
    by (simp add: quota_limit_well_formed)
  have f: "quota_limit (Inl e) owner = 2"
    by (simp add: quota_limit_def)
  from r1 r2 c w f show ?thesis by blast
qed

theorem quota_nameless_counterexample:
  "truthy (username body_alice) \<and> truthy (session_id body_alice) \<and>
   db_fault env_nameless CountDocuments = None \<and>
   axios_get env_nameless pro_url_1 = Inr pro_list_nameless \<and>
   spec_prior_count docs_three ''Alice'' = 2 \<and>
   spec_quota_limit (Inr pro_list_nameless) ''Alice'' = 10 \<and>
   resp (post_deploy_1 env_nameless body_alice docs_three) =
     JsonError 400
       ''You've reached the maximum deployment limit (2/2). Please contact admin.'' None \<and>
   console (post_deploy_1 env_nameless body_alice docs_three) =
     [(''Error fetching pro users:'',
       ''Cannot read properties of undefined (reading 'toLowerCase')'')]"
  by code_simp

theorem quota_check_witness:
  "truthy (username body_alice) \<and> truthy (session_id body_alice) \<and>
   db_fault env_fetch_down CountDocuments = None \<and>
   countDocuments docs_three (toLowerCase ''Alice'') = 2 \<and>
   quota_limit (axios_get env_fetch_down pro_url_1) ''Alice'' = 2 \<and>
   quota_limit (axios_get env_ok pro_url_1) ''Alice'' = 5 \<and>
   quota_limit (axios_get env_nameless pro_url_2) ''Alice'' = 2 \<and>
   resp (post_deploy_1 env_fetch_down body_alice docs_three) =
     JsonError 400
       ''You've reached the maximum deployment limit (2/2). Please contact admin.'' None \<and>
   docs_after (post_deploy_1 env_fetch_down body_alice docs_three) = docs_three \<and>
   calls (post_deploy_1 env_fetch_down body_alice docs_three) = [GetJson pro_url_1] \<and>
   resp (post_deploy_2 env_nameless body_alice docs_three) =
     JsonError 400
       ''You've reached the maximum deployment limit (2/2). Please contact admin.'' None \<and>
   \<not> (\<exists>m. resp (post_deploy_1 env_ok body_alice docs_three) = JsonError 400 m None) \<and>
   \<not> (\<exists>m. resp (post_deploy_2 env_ok body_alice docs_three) = JsonError 400 m None) \<and>
   stored_lower docs_three \<and> spec_prior_count docs_three ''Alice'' = 2 \<and>
   well_formed (Inr pro_list) \<and> spec_quota_limit (Inr pro_list) ''Alice'' = 5"
proof -
  have u: "truthy (username body_alice)" by code_simp
  have s: "truthy (session_id body_alice)" by code_simp
  have c1: "db_fault env_fetch_down CountDocuments = None" by code_simp
  have c2: "db_fault env_ok CountDocuments = None" by code_simp
  have c3: "db_fault env_nameless CountDocuments = None" by code_simp
  have a: "the (username body_alice) = ''Alice''" by code_simp
  have n: "countDocuments docs_three (toLowerCase ''Alice'') = 2" by code_simp
  have q1: "quota_limit (axios_get env_fetch_down pro_url_1) ''Alice'' = 2" by code_simp
  have q2: "quota_limit (axios_get env_ok pro_url_1) ''Alice'' = 5" by code_simp
  have q2': "quota_limit (axios_get env_ok pro_url_2) ''Alice'' = 5" by code_simp
  have q3: "quota_limit (axios_get env_nameless pro_url_2) ''Alice'' = 2" by code_simp
  have l: "stored_lower docs_three" by code_simp
  have w: "well_formed (Inr pro_list)" by code_simp
  have q: "quota_limit (Inr pro_list) ''Alice'' = 5" by code_simp
  have m: "''You've reached the maximum deployment limit ('' @ show_nat 2 @ ''/'' @
           show_int 2 @ ''). Please contact admin.'' =
           ''You've reached the maximum deployment limit (2/2). Please contact admin.''"
    by code_simp
  note down = quota_check [where docs = docs_three, OF u s c1, unfolded a n q1]
  note up = quota_check [where docs = docs_three and fetched = "Inr pro_list" and
      owner = "''Alice''", OF u s c2, unfolded a n q2 q2']
  note nameless = quota_check [where docs = docs_three, OF u s c3, unfolded a n q3]
  have r1: "resp (post_deploy_1 env_fetch_down body_alice docs_three) =
       JsonError 400 (''You've reached the maximum deployment limit ('' @ show_nat 2 @ ''/'' @
           show_int 2 @ ''). Please contact admin.'') None \<and>
     docs_after (post_deploy_1 env_fetch_down body_alice docs_three) = docs_three \<and>
     calls (post_deploy_1 env_fetch_down body_alice docs_three) = [GetJson pro_url_1]"
    using down [THEN conjunct2, THEN conjunct2, THEN conjunct1] by simp
  have r2: "resp (post_deploy_2 env_nameless body_alice docs_three) =
       JsonError 400 (''You've reached the maximum deployment limit ('' @ show_nat 2 @ ''/'' @
           show_int 2 @ ''). Please contact admin.'') None"
    using nameless [THEN conjunct2, THEN conjunct2, THEN conjunct2, THEN conjunct2,
      THEN conjunct2, THEN conjunct1] by simp
  have ok1: "\<not> (\<exists>m. resp (post_deploy_1 env_ok body_alice docs_three) = JsonError 400 m None)"
    using up [THEN conjunct1] by simp
  have ok2: "\<not> (\<exists>m. resp (post_deploy_2 env_ok body_alice docs_three) = JsonError 400 m None)"
    using up [THEN conjunct2, THEN conjunct2, THEN conjunct2, THEN conjunct1] by simp
  from up l have p: "2 = spec_prior_count docs_three ''Alice''" by blast
  from up w have sq: "quota_limit (Inr pro_list) ''Alice'' = spec_quota_limit (Inr pro_list) ''Alice''"
    by blast
  from p have p': "spec_prior_count docs_three ''Alice'' = 2" by simp
  from sq q have sq': "spec_quota_limit (Inr pro_list) ''Alice'' = 5" by simp
  from u s c1 n q1 q2 q3 r1 [unfolded m] r2 [unfolded m] ok1 ok2 l p' w sq'
  show ?thesis by blast
qed

section \<open>Provisioning\<close>

lemma config_values_entries:
  "list_all (\<lambda>kv. snd kv \<noteq> Nullish) es \<Longrightarrow>
   config_values es = Inr (map (\<lambda>kv. (fst kv, entry_value (snd kv))) es)"
proof (induction es)
  case Nil
  show ?case by simp
next
  case (Cons kv es)
  obtain k v where kv: "kv = (k, v)" by (cases kv)
  with Cons show ?case by (cases v) auto
qed

lemma provision_1_create_fails:
  "heroku E (create_call E b) = Some e \<Longrightarrow>
   provision_1 E b docs = deployment_failed_1 e docs [create_call E b]"
  by (simp add: provision_1_def create_call_def Let_def)

lemma provision_1_config_fails:
  "heroku E (create_call E b) = None \<Longrightarrow> configVars (config b) = Inl m \<Longrightarrow>
   provision_1 E b docs = deployment_failed_1 (JsError None m) docs [create_call E b]"
  by (simp add: provision_1_def create_call_def Let_def)

lemma provision_1_patch_fails:
  "heroku E (create_call E b) = None \<Longrightarrow> configVars (config b) = Inr vars \<Longrightarrow>
   heroku E (patch_call E b vars) = Some e \<Longrightarrow>
   provision_1 E b docs =
     deployment_failed_1 e docs [create_call E b, patch_call E b vars]"
  by (simp add: provision_1_def create_call_def patch_call_def Let_def)

lemma provision_1_build_fails:
  "heroku E (create_call E b) = None \<Longrightarrow> configVars (config b) = Inr vars \<Longrightarrow>
   heroku E (patch_call E b vars) = None \<Longrightarrow> heroku E (build_call E b) = Some e \<Longrightarrow>
   provision_1 E b docs =
     deployment_failed_1 e docs [create_call E b, patch_call E b vars, build_call E b]"
  by (simp add: provision_1_def create_call_def patch_call_def build_call_def Let_def)

lemma provision_1_built:
  "heroku E (create_call E b) = None \<Longrightarrow> configVars (config b) = Inr vars \<Longrightarrow>
   heroku E (patch_call E b vars) = None \<Longrightarrow> heroku E (build_call E b) = None \<Longrightarrow>
   calls (provision_1 E b docs) = [create_call E b, patch_call E b vars, build_call E b] \<and>
   (db_fault E InsertOne = None \<longrightarrow>
      resp (provision_1 E b docs) = DeployStarted started (new_token E b) None \<and>
      docs_after (provision_1 E b docs) =
        docs @ [\<lparr>d_username = toLowerCase (the (username b)), d_name = app_name E b,
                 d_type = bot_type b, d_token = new_token E b, d_createdAt = now E,
                 d_session_id = None, d_config = None\<rparr>])"
  by (simp add: provision_1_def create_call_def patch_call_def build_call_def Let_def
        deployment_failed_1_def insertOne_def split: option.splits)

lemma provision_1_written:
  assumes "docs_after (provision_1 E b docs) \<noteq> docs"
  shows "heroku E (create_call E b) = None \<and>
         (\<exists>vars. configVars (config b) = Inr vars \<and> heroku E (patch_call E b vars) = None) \<and>
         heroku E (build_call E b) = None"
proof -
  have 1: "heroku E (create_call E b) = None"
    using assms provision_1_create_fails [of E b _ docs]
    by (cases "heroku E (create_call E b)") (auto simp: deployment_failed_1_def)
  obtain vars where 2: "configVars (config b) = Inr vars"
    using assms 1 provision_1_config_fails [of E b _ docs]
    by (cases "configVars (config b)") (auto simp: deployment_failed_1_def)
  have 3: "heroku E (patch_call E b vars) = None"
    using assms 1 2 provision_1_patch_fails [of E b vars _ docs]
    by (cases "heroku E (patch_call E b vars)") (auto simp: deployment_failed_1_def)
  have 4: "heroku E (build_call E b) = None"
    using assms 1 2 3 provision_1_build_fails [of E b vars _ docs]
    by (cases "heroku E (build_call E b)") (auto simp: deployment_failed_1_def)
  from 1 2 3 4 show ?thesis by blast
qed

lemma post_deploy_1_passed:
  assumes "truthy (username b)" "truthy (session_id b)"
    and "check_deployment_limit E pro_url_1 (the (username b)) docs = (None, cs, lg)"
  shows "post_deploy_1 E b docs = after cs lg (provision_1 E b docs)"
  using assms by (simp add: post_deploy_1_def post_deploy_def)

text \<open>
  Claim C4. In the first revision, a request that passed the validation and the check of
  the limit creates the app, then sets the \<open>.value\<close> of every entry of \<open>config\<close> as
  configuration variables, then triggers the build from the archive of the bot type. A
  step that fails ends the sequence: the later calls are not made, the response is
  status 500 \<open>Deployment failed\<close> with the provider's payload as details when there is
  one, and the collection is unchanged. The token is generated and the document
  inserted only after the three calls succeeded.
\<close>

theorem provisioning_sequence:
  assumes "truthy (username b)" and "truthy (session_id b)"
    and "check_deployment_limit E pro_url_1 (the (username b)) docs = (None, cs, lg)"
  shows
   "(heroku E (create_call E b) = Some e \<longrightarrow>
       post_deploy_1 E b docs = after cs lg (deployment_failed_1 e docs [create_call E b])) \<and>
    (heroku E (create_call E b) = None \<and> configVars (config b) = Inl msg \<longrightarrow>
       post_deploy_1 E b docs =
         after cs lg (deployment_failed_1 (JsError None msg) docs [create_call E b])) \<and>
    (heroku E (create_call E b) = None \<and> configVars (config b) = Inr vars \<and>
     heroku E (patch_call E b vars) = Some e \<longrightarrow>
       post_deploy_1 E b docs =
         after cs lg (deployment_failed_1 e docs [create_call E b, patch_call E b vars])) \<and>
    (heroku E (create_call E b) = None \<and> configVars (config b) = Inr vars \<and>
     heroku E (patch_call E b vars) = None \<and> heroku E (build_call E b) = Some e \<longrightarrow>
       post_deploy_1 E b docs =
         after cs lg (deployment_failed_1 e docs
           [create_call E b, patch_call E b vars, build_call E b])) \<and>
    (heroku E (create_call E b) = None \<and> configVars (config b) = Inr vars \<and>
     heroku E (patch_call E b vars) = None \<and> heroku E (build_call E b) = None \<longrightarrow>
       calls (post_deploy_1 E b docs) =
         cs @ [create_call E b, patch_call E b vars, build_call E b] \<and>
       (db_fault E InsertOne = None \<longrightarrow>
          resp (post_deploy_1 E b docs) = DeployStarted started (new_token E b) None \<and>
          docs_after (post_deploy_1 E b docs) =
            docs @ [\<lparr>d_username = toLowerCase (the (username b)), d_name = app_name E b,
                     d_type = bot_type b, d_token = new_token E b, d_createdAt = now E,
                     d_session_id = None, d_config = None\<rparr>])) \<and>
    (config b = Some es \<and> list_all (\<lambda>kv. snd kv \<noteq> Nullish) es \<longrightarrow>
       configVars (config b) = Inr (map (\<lambda>kv. (fst kv, entry_value (snd kv))) es)) \<and>
    (docs_after (post_deploy_1 E b docs) \<noteq> docs \<longrightarrow>
       heroku E (create_call E b) = None \<and>
       (\<exists>vs. configVars (config b) = Inr vs \<and> heroku E (patch_call E b vs) = None) \<and>
       heroku E (build_call E b) = None) \<and>
    resp (deployment_failed_1 e docs cs') = JsonError 500 ''Deployment failed'' (Some (details_of e)) \<and>
    docs_after (deployment_failed_1 e docs cs') = docs \<and>
    calls (deployment_failed_1 e docs cs') = cs' \<and>
    (d \<noteq> [] \<longrightarrow> details_of (JsError (Some d) m) = d)"
proof -
  note p = post_deploy_1_passed [OF assms]
  have 1: "heroku E (create_call E b) = Some e \<longrightarrow>
       post_deploy_1 E b docs = after cs lg (deployment_failed_1 e docs [create_call E b])"
    by (simp add: p provision_1_create_fails)
  have cfg: "heroku E (create_call E b) = None \<and> configVars (config b) = Inl msg \<longrightarrow>
       post_deploy_1 E b docs =
         after cs lg (deployment_failed_1 (JsError None msg) docs [create_call E b])"
    by (simp add: p provision_1_config_fails)
  have 2: "heroku E (create_call E b) = None \<and> configVars (config b) = Inr vars \<and>
     heroku E (patch_call E b vars) = Some e \<longrightarrow>
       post_deploy_1 E b docs =
         after cs lg (deployment_failed_1 e docs [create_call E b, patch_call E b vars])"
    by (simp add: p provision_1_patch_fails)
  have 3: "heroku E (create_call E b) = None \<and> configVars (config b) = Inr vars \<and>
     heroku E (patch_call E b vars) = None \<and> heroku E (build_call E b) = Some e \<longrightarrow>
       post_deploy_1 E b docs =
         after cs lg (deployment_failed_1 e docs
           [create_call E b, patch_call E b vars, build_call E b])"
    by (simp add: p provision_1_build_fails)
  have 4: "heroku E (create_call E b) = None \<and> configVars (config b) = Inr vars \<and>
     heroku E (patch_call E b vars) = None \<and> heroku E (build_call E b) = None \<longrightarrow>
       calls (post_deploy_1 E b docs) =
         cs @ [create_call E b, patch_call E b vars, build_call E b] \<and>
       (db_fault E InsertOne = None \<longrightarrow>
          resp (post_deploy_1 E b docs) = DeployStarted started (new_token E b) None \<and>
          docs_after (post_deploy_1 E b docs) =
            docs @ [\<lparr>d_username = toLowerCase (the (username b)), d_name = app_name E b,
                     d_type = bot_type b, d_token = new_token E b, d_createdAt = now E,
                     d_session_id = None, d_config = None\<rparr>])"
    using provision_1_built [of E b vars docs]
    by (simp add: p calls_after resp_after docs_after_after)
  have 5: "config b = Some es \<and> list_all (\<lambda>kv. snd kv \<noteq> Nullish) es \<longrightarrow>
       configVars (config b) = Inr (map (\<lambda>kv. (fst kv, entry_value (snd kv))) es)"
    by (simp add: configVars_def config_values_entries)
  have 6: "docs_after (post_deploy_1 E b docs) \<noteq> docs \<longrightarrow>
       heroku E (create_call E b) = None \<and>
       (\<exists>vs. configVars (config b) = Inr vs \<and> heroku E (patch_call E b vs) = None) \<and>
       heroku E (build_call E b) = None"
    using provision_1_written [of E b docs] by (simp add: p docs_after_after)
  have 7: "resp (deployment_failed_1 e docs cs') = JsonError 500 ''Deployment failed'' (Some (details_of e)) \<and>
    docs_after (deployment_failed_1 e docs cs') = docs \<and>
    calls (deployment_failed_1 e docs cs') = cs' \<and>
    (d \<noteq> [] \<longrightarrow> details_of (JsError (Some d) m) = d)"
    by (simp add: deployment_failed_1_def details_of_def)
  from 1 cfg 2 3 4 5 6 7 show ?thesis by blast
qed

theorem provisioning_sequence_witness:
  "truthy (username body_alice) \<and> truthy (session_id body_alice) \<and>
   check_deployment_limit env_ok pro_url_1 ''Alice'' [] = (None, [GetJson pro_url_1], []) \<and>
   configVars (config body_alice) = Inr [(''PREFIX'', Some ''.'')] \<and>
   calls (post_deploy_1 env_ok body_alice []) =
     [GetJson pro_url_1, CreateApp ''key-1'' ''my-bot-'',
      SetConfigVars ''key-1'' ''my-bot-'' [(''PREFIX'', Some ''.'')],
      TriggerBuild ''key-1'' ''my-bot-''
        (Some ''https://github.com/JawadTechXD/KHAN-MD/tarball/main'')] \<and>
   resp (post_deploy_1 env_ok body_alice []) = DeployStarted started uuid_a None \<and>
   docs_after (post_deploy_1 env_ok body_alice []) =
     [\<lparr>d_username = ''alice'', d_name = ''my-bot-'', d_type = Some ''khan'',
       d_token = uuid_a, d_createdAt = 17, d_session_id = None, d_config = None\<rparr>] \<and>
   heroku env_name_taken (create_call env_name_taken body_alice) = Some invalid_params \<and>
   resp (post_deploy_1 env_name_taken body_alice []) =
     JsonError 500 ''Deployment failed'' (Some ''invalid_params: Name is already taken'') \<and>
   calls (post_deploy_1 env_name_taken body_alice []) =
     [GetJson pro_url_1, CreateApp ''key-1'' ''my-bot-''] \<and>
   docs_after (post_deploy_1 env_name_taken body_alice []) = []"
proof -
  have u: "truthy (username body_alice)" by code_simp
  have s: "truthy (session_id body_alice)" by code_simp
  have a: "the (username body_alice) = ''Alice''" by code_simp
  have k1: "check_deployment_limit env_ok pro_url_1 ''Alice'' [] = (None, [GetJson pro_url_1], [])"
    by code_simp
  have k2: "check_deployment_limit env_name_taken pro_url_1 ''Alice'' [] =
            (None, [GetJson pro_url_1], [])"
    by code_simp
  have v: "configVars (config body_alice) = Inr [(''PREFIX'', Some ''.'')]" by code_simp
  have h1: "heroku env_ok (create_call env_ok body_alice) = None" by code_simp
  have h2: "heroku env_ok (patch_call env_ok body_alice [(''PREFIX'', Some ''.'')]) = None"
    by code_simp
  have h3: "heroku env_ok (build_call env_ok body_alice) = None" by code_simp
  have i: "db_fault env_ok InsertOne = None" by code_simp
  have f: "heroku env_name_taken (create_call env_name_taken body_alice) = Some invalid_params"
    by code_simp
  have cc: "create_call env_ok body_alice = CreateApp ''key-1'' ''my-bot-''" by code_simp
  have cc': "create_call env_name_taken body_alice = CreateApp ''key-1'' ''my-bot-''" by code_simp
  have pc: "patch_call env_ok body_alice [(''PREFIX'', Some ''.'')] =
            SetConfigVars ''key-1'' ''my-bot-'' [(''PREFIX'', Some ''.'')]"
    by code_simp
  have bc: "build_call env_ok body_alice =
            TriggerBuild ''key-1'' ''my-bot-''
              (Some ''https://github.com/JawadTechXD/KHAN-MD/tarball/main'')"
    by code_simp
  have d1: "toLowerCase (the (username body_alice)) = ''alice''" by code_simp
  have d2: "app_name env_ok body_alice = ''my-bot-''" by code_simp
  have d3: "bot_type body_alice = Some ''khan''" by code_simp
  have d4: "now env_ok = 17" by code_simp
  have t: "new_token env_ok body_alice = uuid_a" by code_simp
  have dt: "details_of invalid_params = ''invalid_params: Name is already taken''" by code_simp
  note ok = provisioning_sequence [OF u s k1 [folded a],
      of _ _ "[(''PREFIX'', Some ''.'')]"]
  from ok v h1 h2 h3 i
  have 1: "calls (post_deploy_1 env_ok body_alice []) =
         [GetJson pro_url_1] @ [create_call env_ok body_alice,
            patch_call env_ok body_alice [(''PREFIX'', Some ''.'')],
            build_call env_ok body_alice] \<and>
       resp (post_deploy_1 env_ok body_alice []) =
         DeployStarted started (new_token env_ok body_alice) None \<and>
       docs_after (post_deploy_1 env_ok body_alice []) =
         [] @ [\<lparr>d_username = toLowerCase (the (username body_alice)),
             d_name = app_name env_ok body_alice, d_type = bot_type body_alice,
             d_token = new_token env_ok body_alice, d_createdAt = now env_ok,
             d_session_id = None, d_config = None\<rparr>]"
    by blast
  note bad = provisioning_sequence [OF u s k2 [folded a], of invalid_params]
  from bad f
  have 2: "post_deploy_1 env_name_taken body_alice [] =
           after [GetJson pro_url_1] []
             (deployment_failed_1 invalid_params [] [create_call env_name_taken body_alice])"
    by blast
  from 1 have ok': "calls (post_deploy_1 env_ok body_alice []) =
     [GetJson pro_url_1, CreateApp ''key-1'' ''my-bot-'',
      SetConfigVars ''key-1'' ''my-bot-'' [(''PREFIX'', Some ''.'')],
      TriggerBuild ''key-1'' ''my-bot-''
        (Some ''https://github.com/JawadTechXD/KHAN-MD/tarball/main'')] \<and>
   resp (post_deploy_1 env_ok body_alice []) = DeployStarted started uuid_a None \<and>
   docs_after (post_deploy_1 env_ok body_alice []) =
     [\<lparr>d_username = ''alice'', d_name = ''my-bot-'', d_type = Some ''khan'',
       d_token = uuid_a, d_createdAt = 17, d_session_id = None, d_config = None\<rparr>]"
    unfolding cc pc bc t d1 d2 d3 d4 append_Nil append_Cons .
  have bad': "resp (post_deploy_1 env_name_taken body_alice []) =
     JsonError 500 ''Deployment failed'' (Some ''invalid_params: Name is already taken'') \<and>
   calls (post_deploy_1 env_name_taken body_alice []) =
     [GetJson pro_url_1, CreateApp ''key-1'' ''my-bot-''] \<and>
   docs_after (post_deploy_1 env_name_taken body_alice []) = []"
    unfolding 2 cc' by (simp add: after_def deployment_failed_1_def dt)
  from u s k1 v f ok' bad' show ?thesis by blast
qed

section \<open>The token and the record\<close>

lemma provision_2_started:
  assumes "resp (provision_2 E b docs) = DeployStarted m t a"
  shows "t = new_token E b \<and> a = Some (app_name E b) \<and> t \<notin> set (map d_token docs) \<and>
         (\<exists>d. docs_after (provision_2 E b docs) = docs @ [d] \<and> d_token d = t \<and>
              d_name d = app_name E b)"
  using assms
  by (auto simp: provision_2_def Let_def deployment_failed_2_def insertOne_unique_def
        split: option.splits sum.splits if_splits)

lemma provision_1_started:
  assumes "resp (provision_1 E b docs) = DeployStarted m t a"
  shows "t = new_token E b \<and> a = None \<and>
         (\<exists>d. docs_after (provision_1 E b docs) = docs @ [d] \<and> d_token d = t \<and>
              d_name d = app_name E b)"
  using assms
  by (auto simp: provision_1_def Let_def deployment_failed_1_def insertOne_def
        split: option.splits sum.splits if_splits)

lemma filter_fresh_token:
  "t \<notin> set (map d_token docs) \<Longrightarrow> d_token d = t \<Longrightarrow>
   filter (\<lambda>x. d_token x = t) (docs @ [d]) = [d]"
  by (induction docs) auto

text \<open>
  Claim C5, as amended. A successful response of the second revision holds the token and
  the generated app name, and exactly one stored document has that token; its name is
  the generated name. A successful response of the first revision holds the token but
  no app name; a stored document has that token and the generated name, and it is the
  only one when the fresh UUID is not a token already stored (the first revision creates
  no unique index).
\<close>

theorem deploy_token_record:
  "(resp (post_deploy_2 E b docs) = DeployStarted m t a \<longrightarrow>
      t = new_token E b \<and> a = Some (app_name E b) \<and>
      (\<exists>d. filter (\<lambda>x. d_token x = t) (docs_after (post_deploy_2 E b docs)) = [d] \<and>
           d_name d = app_name E b)) \<and>
   (resp (post_deploy_1 E b docs) = DeployStarted m t a \<longrightarrow>
      t = new_token E b \<and> a = None \<and>
      (\<exists>d. d \<in> set (docs_after (post_deploy_1 E b docs)) \<and> d_token d = t \<and>
           d_name d = app_name E b) \<and>
      (t \<notin> set (map d_token docs) \<longrightarrow>
         (\<exists>d. filter (\<lambda>x. d_token x = t) (docs_after (post_deploy_1 E b docs)) = [d] \<and>
              d_name d = app_name E b)))"
proof -
  have two: "t = new_token E b \<and> a = Some (app_name E b) \<and>
      (\<exists>d. filter (\<lambda>x. d_token x = t) (docs_after (post_deploy_2 E b docs)) = [d] \<and>
           d_name d = app_name E b)"
    if "resp (post_deploy_2 E b docs) = DeployStarted m t a"
  proof -
    from that have s: "resp (provision_2 E b docs) = DeployStarted m t a"
      and d: "docs_after (post_deploy_2 E b docs) = docs_after (provision_2 E b docs)"
      using post_deploy_started [of pro_url_2 provision_2 E b docs m t a]
      by (simp_all add: post_deploy_2_def)
    from provision_2_started [OF s] obtain x where
      x: "t = new_token E b" "a = Some (app_name E b)" "t \<notin> set (map d_token docs)"
         "docs_after (provision_2 E b docs) = docs @ [x]" "d_token x = t"
         "d_name x = app_name E b"
      by blast
    from x(3,5) have "filter (\<lambda>y. d_token y = t) (docs @ [x]) = [x]"
      by (rule filter_fresh_token)
    with x d show ?thesis by simp
  qed
  have one: "t = new_token E b \<and> a = None \<and>
      (\<exists>d. d \<in> set (docs_after (post_deploy_1 E b docs)) \<and> d_token d = t \<and>
           d_name d = app_name E b) \<and>
      (t \<notin> set (map d_token docs) \<longrightarrow>
         (\<exists>d. filter (\<lambda>x. d_token x = t) (docs_after (post_deploy_1 E b docs)) = [d] \<and>
              d_name d = app_name E b))"
    if "resp (post_deploy_1 E b docs) = DeployStarted m t a"
  proof -
    from that have s: "resp (provision_1 E b docs) = DeployStarted m t a"
      and d: "docs_after (post_deploy_1 E b docs) = docs_after (provision_1 E b docs)"
      using post_deploy_started [of pro_url_1 provision_1 E b docs m t a]
      by (simp_all add: post_deploy_1_def)
    from provision_1_started [OF s] obtain x where
      x: "t = new_token E b" "a = None"
         "docs_after (provision_1 E b docs) = docs @ [x]" "d_token x = t"
         "d_name x = app_name E b"
      by blast
    have "filter (\<lambda>y. d_token y = t) (docs @ [x]) = [x]" if "t \<notin> set (map d_token docs)"
      using that x(4) by (rule filter_fresh_token)
    with x d show ?thesis by auto
  qed
  from one two show ?thesis by blast
qed

theorem deploy_token_record_witness:
  "resp (post_deploy_2 env_ok body_alice docs_three) =
     DeployStarted started uuid_a (Some ''my-bot-'') \<and>
   new_token env_ok body_alice = uuid_a \<and> app_name env_ok body_alice = ''my-bot-'' \<and>
   (\<exists>d. filter (\<lambda>x. d_token x = uuid_a) (docs_after (post_deploy_2 env_ok body_alice docs_three)) = [d] \<and>
        d_name d = ''my-bot-'') \<and>
   resp (post_deploy_1 env_ok body_alice []) = DeployStarted started uuid_a None \<and>
   uuid_a \<notin> set (map d_token []) \<and>
   (\<exists>d. filter (\<lambda>x. d_token x = uuid_a) (docs_after (post_deploy_1 env_ok body_alice [])) = [d] \<and>
        d_name d = ''my-bot-'')"
proof -
  have r2: "resp (post_deploy_2 env_ok body_alice docs_three) =
     DeployStarted started uuid_a (Some ''my-bot-'')"
    by code_simp
  have r1: "resp (post_deploy_1 env_ok body_alice []) = DeployStarted started uuid_a None"
    by code_simp
  have t: "new_token env_ok body_alice = uuid_a" by code_simp
  have n: "app_name env_ok body_alice = ''my-bot-''" by code_simp
  have f: "uuid_a \<notin> set (map d_token [])" by simp
  from deploy_token_record [of env_ok body_alice docs_three started uuid_a "Some ''my-bot-''"] r2
  have 2: "\<exists>d. filter (\<lambda>x. d_token x = uuid_a)
              (docs_after (post_deploy_2 env_ok body_alice docs_three)) = [d] \<and>
            d_name d = app_name env_ok body_alice"
    by blast
  from deploy_token_record [of env_ok body_alice "[]" started uuid_a None] r1 f
  have 1: "\<exists>d. filter (\<lambda>x. d_token x = uuid_a)
              (docs_after (post_deploy_1 env_ok body_alice [])) = [d] \<and>
            d_name d = app_name env_ok body_alice"
    by blast
  from r2 r1 t n f 1 2 show ?thesis
    unfolding n by blast
qed

theorem deploy_response_counterexample:
  "resp (post_deploy_1 env_ok body_alice []) = DeployStarted started uuid_a None \<and>
   docs_after (post_deploy_1 env_ok body_alice []) =
     [\<lparr>d_username = ''alice'', d_name = ''my-bot-'', d_type = Some ''khan'',
       d_token = uuid_a, d_createdAt = 17, d_session_id = None, d_config = None\<rparr>]"
  by code_simp

text \<open>
  Claim C6, as amended. In the second revision an insertion refused for a duplicate app
  name is answered like every other failure of the insertion: status 500 with the error
  \<open>Deployment failed\<close>, the message of the store as details, and the collection
  unchanged.
\<close>

theorem duplicate_name_failure:
  assumes "truthy (username b)" and "truthy (session_id b)"
    and "check_deployment_limit E pro_url_2 (the (username b)) docs = (None, cs, lg)"
  shows
   "(db_fault E InsertOne = None \<and> new_token E b \<notin> set (map d_token docs) \<and>
     app_name E b \<in> set (map d_name docs) \<longrightarrow>
       resp (post_deploy_2 E b docs) =
         JsonError 500 ''Deployment failed'' (Some ''E11000 duplicate key error index: name_1'') \<and>
       docs_after (post_deploy_2 E b docs) = docs) \<and>
    (db_fault E InsertOne = Some msg \<longrightarrow>
       resp (post_deploy_2 E b docs) = JsonError 500 ''Deployment failed'' (Some msg) \<and>
       docs_after (post_deploy_2 E b docs) = docs)"
proof -
  have p: "post_deploy_2 E b docs = after cs lg (provision_2 E b docs)"
    using assms by (simp add: post_deploy_2_def post_deploy_def)
  show ?thesis
    by (simp add: p resp_after docs_after_after provision_2_def Let_def insertOne_unique_def
          deployment_failed_2_def)
qed

theorem duplicate_name_failure_witness:
  "truthy (username body_alice) \<and> truthy (session_id body_alice) \<and>
   check_deployment_limit env_ok pro_url_2 ''Alice'' [stored ''carol'' ''my-bot-'' ''tok-c1''] =
     (None, [GetJson pro_url_2], []) \<and>
   db_fault env_ok InsertOne = None \<and>
   new_token env_ok body_alice \<notin> set (map d_token [stored ''carol'' ''my-bot-'' ''tok-c1'']) \<and>
   app_name env_ok body_alice \<in> set (map d_name [stored ''carol'' ''my-bot-'' ''tok-c1'']) \<and>
   resp (post_deploy_2 env_ok body_alice [stored ''carol'' ''my-bot-'' ''tok-c1'']) =
     JsonError 500 ''Deployment failed'' (Some ''E11000 duplicate key error index: name_1'') \<and>
   docs_after (post_deploy_2 env_ok body_alice [stored ''carol'' ''my-bot-'' ''tok-c1'']) =
     [stored ''carol'' ''my-bot-'' ''tok-c1''] \<and>
   db_fault env_insert_down InsertOne = Some ''connection closed'' \<and>
   resp (post_deploy_2 env_insert_down body_alice []) =
     JsonError 500 ''Deployment failed'' (Some ''connection closed'')"
proof -
  have u: "truthy (username body_alice)" by code_simp
  have s: "truthy (session_id body_alice)" by code_simp
  have a: "the (username body_alice) = ''Alice''" by code_simp
  have k1: "check_deployment_limit env_ok pro_url_2 ''Alice''
              [stored ''carol'' ''my-bot-'' ''tok-c1''] = (None, [GetJson pro_url_2], [])"
    by code_simp
  have k2: "check_deployment_limit env_insert_down pro_url_2 ''Alice'' [] =
              (None, [GetJson pro_url_2], [])"
    by code_simp
  have i1: "db_fault env_ok InsertOne = None" by code_simp
  have i2: "db_fault env_insert_down InsertOne = Some ''connection closed''" by code_simp
  have f: "new_token env_ok body_alice \<notin>
           set (map d_token [stored ''carol'' ''my-bot-'' ''tok-c1''])"
    by code_simp
  have d: "app_name env_ok body_alice \<in>
           set (map d_name [stored ''carol'' ''my-bot-'' ''tok-c1''])"
    by code_simp
  from duplicate_name_failure [OF u s k1 [folded a]] i1 f d
  have 1: "resp (post_deploy_2 env_ok body_alice [stored ''carol'' ''my-bot-'' ''tok-c1'']) =
     JsonError 500 ''Deployment failed'' (Some ''E11000 duplicate key error index: name_1'') \<and>
   docs_after (post_deploy_2 env_ok body_alice [stored ''carol'' ''my-bot-'' ''tok-c1'']) =
     [stored ''carol'' ''my-bot-'' ''tok-c1'']"
    by blast
  from duplicate_name_failure [OF u s k2 [folded a], of "''connection closed''"] i2
  have 2: "resp (post_deploy_2 env_insert_down body_alice []) =
     JsonError 500 ''Deployment failed'' (Some ''connection closed'')"
    by blast
  from u s k1 i1 f d 1 2 i2 show ?thesis by blast
qed

theorem duplicate_name_counterexample:
  "resp (post_deploy_2 env_ok body_alice [stored ''carol'' ''my-bot-'' ''tok-c1'']) =
     JsonError 500 ''Deployment failed'' (Some ''E11000 duplicate key error index: name_1'') \<and>
   resp (post_deploy_2 env_insert_down body_alice []) =
     JsonError 500 ''Deployment failed'' (Some ''connection closed'')"
  by code_simp

section \<open>Deletion and listing\<close>

lemma findOne_None: "t \<notin> set (map d_token docs) \<Longrightarrow> findOne docs t = None"
  by (auto simp: findOne_def find_None_iff)



lemma deleteOne_distinct:
  "distinct (map d_name docs) \<Longrightarrow> deleteOne docs n = filter (\<lambda>d. d_name d \<noteq> n) docs"
proof (induction docs)
  case Nil
  show ?case by simp
next
  case (Cons d ds)
  show ?case
  proof (cases "d_name d = n")
    case True
    with Cons.prems have "n \<notin> d_name ` set ds" by simp
    then have "\<forall>x \<in> set ds. d_name x \<noteq> n" by blast
    then have "filter (\<lambda>d. d_name d \<noteq> n) ds = ds" by (simp add: filter_id_conv)
    with True show ?thesis by simp
  next
    case False
    with Cons show ?thesis by simp
  qed
qed

text \<open>
  Claim C7. In both revisions, for a request that presents a token and whose lookup
  succeeds: when no stored deployment has the token the response is status 404
  \<open>Invalid token\<close>; when the deployment found has another name than the requested one
  the response is status 403 \<open>Not authorized to delete this app\<close>. In both cases no
  call is made and the collection is unchanged.
\<close>

theorem delete_refused:
  assumes "truthy token" and "db_fault E FindOne = None"
  shows
   "(the token \<notin> set (map d_token docs) \<longrightarrow>
       delete_bot_1 E appName token docs = plain (JsonError 404 ''Invalid token'' None) docs \<and>
       delete_bot_2 E appName token docs = plain (JsonError 404 ''Invalid token'' None) docs) \<and>
    (findOne docs (the token) = Some d \<and> d_name d \<noteq> appName \<longrightarrow>
       delete_bot_1 E appName token docs =
         plain (JsonError 403 ''Not authorized to delete this app'' None) docs \<and>
       delete_bot_2 E appName token docs =
         plain (JsonError 403 ''Not authorized to delete this app'' None) docs) \<and>
    docs_after (plain r docs) = docs \<and> calls (plain r docs) = []"
proof -
  have "findOne docs (the token) = None" if "the token \<notin> set (map d_token docs)"
    using that by (rule findOne_None)
  then show ?thesis
    using assms by (auto simp: delete_bot_1_def delete_bot_2_def plain_def)
qed

theorem delete_refused_witness:
  "truthy (Some ''tok-zz'') \<and> db_fault env_ok FindOne = None \<and>
   ''tok-zz'' \<notin> set (map d_token docs_three) \<and>
   delete_bot_1 env_ok ''bob-one'' (Some ''tok-zz'') docs_three =
     \<lparr>resp = JsonError 404 ''Invalid token'' None, docs_after = docs_three,
      calls = [], console = []\<rparr> \<and>
   delete_bot_2 env_ok ''bob-one'' (Some ''tok-zz'') docs_three =
     \<lparr>resp = JsonError 404 ''Invalid token'' None, docs_after = docs_three,
      calls = [], console = []\<rparr> \<and>
   findOne docs_three ''tok-a1'' = Some (stored ''alice'' ''alice-one'' ''tok-a1'') \<and>
   d_name (stored ''alice'' ''alice-one'' ''tok-a1'') \<noteq> ''bob-one'' \<and>
   delete_bot_1 env_ok ''bob-one'' (Some ''tok-a1'') docs_three =
     \<lparr>resp = JsonError 403 ''Not authorized to delete this app'' None,
      docs_after = docs_three, calls = [], console = []\<rparr> \<and>
   delete_bot_2 env_ok ''bob-one'' (Some ''tok-a1'') docs_three =
     \<lparr>resp = JsonError 403 ''Not authorized to delete this app'' None,
      docs_after = docs_three, calls = [], console = []\<rparr>"
proof -
  have t1: "truthy (Some ''tok-zz'')" by code_simp
  have t2: "truthy (Some ''tok-a1'')" by code_simp
  have f: "db_fault env_ok FindOne = None" by code_simp
  have n: "the (Some ''tok-zz'') \<notin> set (map d_token docs_three)" by code_simp
  have o: "findOne docs_three (the (Some ''tok-a1'')) =
           Some (stored ''alice'' ''alice-one'' ''tok-a1'')"
    by code_simp
  have d: "d_name (stored ''alice'' ''alice-one'' ''tok-a1'') \<noteq> ''bob-one''" by code_simp
  from delete_refused [OF t1 f, of docs_three "''bob-one''"] n
  have 1: "delete_bot_1 env_ok ''bob-one'' (Some ''tok-zz'') docs_three =
             plain (JsonError 404 ''Invalid token'' None) docs_three \<and>
           delete_bot_2 env_ok ''bob-one'' (Some ''tok-zz'') docs_three =
             plain (JsonError 404 ''Invalid token'' None) docs_three"
    by blast
  from delete_refused [OF t2 f, of docs_three "''bob-one''"
         "stored ''alice'' ''alice-one'' ''tok-a1''"] o d
  have 2: "delete_bot_1 env_ok ''bob-one'' (Some ''tok-a1'') docs_three =
             plain (JsonError 403 ''Not authorized to delete this app'' None) docs_three \<and>
           delete_bot_2 env_ok ''bob-one'' (Some ''tok-a1'') docs_three =
             plain (JsonError 403 ''Not authorized to delete this app'' None) docs_three"
    by blast
  from t1 f n o d 1 2 show ?thesis
    unfolding plain_def option.sel by blast
qed

text \<open>
  Claim C8, as amended. For an authorized deletion, the first revision always asks the
  provider to delete the app, and removes the document only when that call succeeded:
  any failure of the call, an app already gone included, gives status 500 and leaves the
  document. The second revision never calls the provider and removes the document.
  Under unique names the removal takes exactly the documents of that name.
\<close>

theorem delete_authorized:
  assumes "truthy token" and "db_fault E FindOne = None"
    and "findOne docs (the token) = Some d" and "d_name d = appName"
  shows
   "calls (delete_bot_1 E appName token docs) = [DeleteApp (getRandomHerokuKey E) appName] \<and>
    (heroku E (DeleteApp (getRandomHerokuKey E) appName) = Some e \<longrightarrow>
       resp (delete_bot_1 E appName token docs) = JsonError 500 ''Internal server error'' None \<and>
       docs_after (delete_bot_1 E appName token docs) = docs) \<and>
    (heroku E (DeleteApp (getRandomHerokuKey E) appName) = None \<and>
     db_fault E DeleteOne = None \<longrightarrow>
       resp (delete_bot_1 E appName token docs) = MessageOk ''App deleted successfully'' \<and>
       docs_after (delete_bot_1 E appName token docs) = deleteOne docs appName) \<and>
    calls (delete_bot_2 E appName token docs) = [] \<and>
    (db_fault E DeleteOne = None \<longrightarrow>
       resp (delete_bot_2 E appName token docs) = MessageOk ''App deleted successfully'' \<and>
       docs_after (delete_bot_2 E appName token docs) = deleteOne docs appName) \<and>
    (distinct (map d_name docs) \<longrightarrow>
       deleteOne docs appName = filter (\<lambda>x. d_name x \<noteq> appName) docs)"
  using assms deleteOne_distinct [of docs appName]
  by (simp add: delete_bot_1_def delete_bot_2_def internal_error_def Let_def
        split: option.splits)

theorem delete_authorized_witness:
  "truthy (Some ''tok-b1'') \<and> db_fault env_ok FindOne = None \<and>
   findOne docs_three ''tok-b1'' = Some (stored ''bob'' ''bob-one'' ''tok-b1'') \<and>
   calls (delete_bot_1 env_ok ''bob-one'' (Some ''tok-b1'') docs_three) =
     [DeleteApp ''key-1'' ''bob-one''] \<and>
   resp (delete_bot_1 env_ok ''bob-one'' (Some ''tok-b1'') docs_three) =
     MessageOk ''App deleted successfully'' \<and>
   docs_after (delete_bot_1 env_ok ''bob-one'' (Some ''tok-b1'') docs_three) =
     [stored ''alice'' ''alice-one'' ''tok-a1'', stored ''alice'' ''alice-two'' ''tok-a2''] \<and>
   heroku env_app_gone (DeleteApp ''key-1'' ''bob-one'') = Some not_found \<and>
   resp (delete_bot_1 env_app_gone ''bob-one'' (Some ''tok-b1'') docs_three) =
     JsonError 500 ''Internal server error'' None \<and>
   docs_after (delete_bot_1 env_app_gone ''bob-one'' (Some ''tok-b1'') docs_three) = docs_three \<and>
   calls (delete_bot_2 env_ok ''bob-one'' (Some ''tok-b1'') docs_three) = [] \<and>
   docs_after (delete_bot_2 env_ok ''bob-one'' (Some ''tok-b1'') docs_three) =
     [stored ''alice'' ''alice-one'' ''tok-a1'', stored ''alice'' ''alice-two'' ''tok-a2'']"
proof -
  have t: "truthy (Some ''tok-b1'')" by code_simp
  have f1: "db_fault env_ok FindOne = None" by code_simp
  have f2: "db_fault env_app_gone FindOne = None" by code_simp
  have o: "findOne docs_three (the (Some ''tok-b1'')) = Some (stored ''bob'' ''bob-one'' ''tok-b1'')"
    by code_simp
  have n: "d_name (stored ''bob'' ''bob-one'' ''tok-b1'') = ''bob-one''" by code_simp
  have k1: "getRandomHerokuKey env_ok = ''key-1''" by code_simp
  have k2: "getRandomHerokuKey env_app_gone = ''key-1''" by code_simp
  have h1: "heroku env_ok (DeleteApp ''key-1'' ''bob-one'') = None" by code_simp
  have h2: "heroku env_app_gone (DeleteApp ''key-1'' ''bob-one'') = Some not_found" by code_simp
  have d: "db_fault env_ok DeleteOne = None" by code_simp
  have r: "deleteOne docs_three ''bob-one'' =
           [stored ''alice'' ''alice-one'' ''tok-a1'', stored ''alice'' ''alice-two'' ''tok-a2'']"
    by code_simp
  note ok = delete_authorized [OF t f1 o n, unfolded k1 r]
  note gone = delete_authorized [OF t f2 o n, unfolded k2, of not_found]
  from ok h1 d
  have 1: "calls (delete_bot_1 env_ok ''bob-one'' (Some ''tok-b1'') docs_three) =
     [DeleteApp ''key-1'' ''bob-one''] \<and>
   resp (delete_bot_1 env_ok ''bob-one'' (Some ''tok-b1'') docs_three) =
     MessageOk ''App deleted successfully'' \<and>
   docs_after (delete_bot_1 env_ok ''bob-one'' (Some ''tok-b1'') docs_three) =
     [stored ''alice'' ''alice-one'' ''tok-a1'', stored ''alice'' ''alice-two'' ''tok-a2''] \<and>
   calls (delete_bot_2 env_ok ''bob-one'' (Some ''tok-b1'') docs_three) = [] \<and>
   docs_after (delete_bot_2 env_ok ''bob-one'' (Some ''tok-b1'') docs_three) =
     [stored ''alice'' ''alice-one'' ''tok-a1'', stored ''alice'' ''alice-two'' ''tok-a2'']"
    by blast
  from gone h2
  have 2: "resp (delete_bot_1 env_app_gone ''bob-one'' (Some ''tok-b1'') docs_three) =
     JsonError 500 ''Internal server error'' None \<and>
   docs_after (delete_bot_1 env_app_gone ''bob-one'' (Some ''tok-b1'') docs_three) = docs_three"
    by blast
  from t f1 o [unfolded option.sel] h2 1 2 show ?thesis by blast
qed

theorem delete_already_gone_counterexample:
  "findOne docs_three ''tok-b1'' = Some (stored ''bob'' ''bob-one'' ''tok-b1'') \<and>
   calls (delete_bot_1 env_app_gone ''bob-one'' (Some ''tok-b1'') docs_three) =
     [DeleteApp ''key-1'' ''bob-one''] \<and>
   resp (delete_bot_1 env_app_gone ''bob-one'' (Some ''tok-b1'') docs_three) =
     JsonError 500 ''Internal server error'' None \<and>
   docs_after (delete_bot_1 env_app_gone ''bob-one'' (Some ''tok-b1'') docs_three) = docs_three \<and>
   calls (delete_bot_2 env_ok ''bob-one'' (Some ''tok-b1'') docs_three) = []"
  by code_simp



section \<open>A failed count\<close>

text \<open>
  Claim C10. In both revisions, when the count of the owner's deployments throws, the
  error is logged and the handler goes on to the name and the provisioning as if the
  limit had not been reached: the allow-list is not fetched and no response of status
  400 is given, however many deployments the owner has.
\<close>

theorem count_failure_skips_quota:
  assumes "truthy (username b)" and "truthy (session_id b)"
    and "db_fault E CountDocuments = Some m"
  shows
   "post_deploy_1 E b docs =
      after [] [(''Error checking deployment limit:'', m)] (provision_1 E b docs) \<and>
    post_deploy_2 E b docs =
      after [] [(''Error checking deployment limit:'', m)] (provision_2 E b docs) \<and>
    resp (post_deploy_1 E b docs) \<noteq> JsonError 400 msg dt \<and>
    resp (post_deploy_2 E b docs) \<noteq> JsonError 400 msg dt"
  using assms provision_1_not_400 provision_2_not_400
  by (simp add: post_deploy_1_def post_deploy_2_def post_deploy_def
        check_deployment_limit_def resp_after)

theorem count_failure_skips_quota_witness:
  "truthy (username body_alice) \<and> truthy (session_id body_alice) \<and>
   db_fault env_count_down CountDocuments = Some ''connection closed'' \<and>
   countDocuments docs_three ''alice'' = 2 \<and>
   fst (userLimit (axios_get env_count_down pro_url_1) ''Alice'') = 2 \<and>
   resp (post_deploy_1 env_count_down body_alice docs_three) =
     DeployStarted started uuid_a None \<and>
   calls (post_deploy_1 env_count_down body_alice docs_three) =
     [CreateApp ''key-1'' ''my-bot-'',
      SetConfigVars ''key-1'' ''my-bot-'' [(''PREFIX'', Some ''.'')],
      TriggerBuild ''key-1'' ''my-bot-''
        (Some ''https://github.com/JawadTechXD/KHAN-MD/tarball/main'')] \<and>
   console (post_deploy_2 env_count_down body_alice docs_three) =
     [(''Error checking deployment limit:'', ''connection closed'')] \<and>
   length (docs_after (post_deploy_2 env_count_down body_alice docs_three)) = 4"
proof -
  have u: "truthy (username body_alice)" by code_simp
  have s: "truthy (session_id body_alice)" by code_simp
  have c: "db_fault env_count_down CountDocuments = Some ''connection closed''" by code_simp
  have n: "countDocuments docs_three ''alice'' = 2" by code_simp
  have l: "fst (userLimit (axios_get env_count_down pro_url_1) ''Alice'') = 2" by code_simp
  have p1: "resp (provision_1 env_count_down body_alice docs_three) =
            DeployStarted started uuid_a None"
    by code_simp
  have p1c: "calls (provision_1 env_count_down body_alice docs_three) =
     [CreateApp ''key-1'' ''my-bot-'',
      SetConfigVars ''key-1'' ''my-bot-'' [(''PREFIX'', Some ''.'')],
      TriggerBuild ''key-1'' ''my-bot-''
        (Some ''https://github.com/JawadTechXD/KHAN-MD/tarball/main'')]"
    by code_simp
  have p2: "console (provision_2 env_count_down body_alice docs_three) = []" by code_simp
  have p2d: "length (docs_after (provision_2 env_count_down body_alice docs_three)) = 4"
    by code_simp
  note w = count_failure_skips_quota [OF u s c, of docs_three]
  from w have e1: "post_deploy_1 env_count_down body_alice docs_three =
      after [] [(''Error checking deployment limit:'', ''connection closed'')]
        (provision_1 env_count_down body_alice docs_three)"
    by blast
  from w have e2: "post_deploy_2 env_count_down body_alice docs_three =
      after [] [(''Error checking deployment limit:'', ''connection closed'')]
        (provision_2 env_count_down body_alice docs_three)"
    by blast
  have 1: "resp (post_deploy_1 env_count_down body_alice docs_three) =
             DeployStarted started uuid_a None"
    unfolding e1 by (simp add: after_def p1)
  have 2: "calls (post_deploy_1 env_count_down body_alice docs_three) =
     [CreateApp ''key-1'' ''my-bot-'',
      SetConfigVars ''key-1'' ''my-bot-'' [(''PREFIX'', Some ''.'')],
      TriggerBuild ''key-1'' ''my-bot-''
        (Some ''https://github.com/JawadTechXD/KHAN-MD/tarball/main'')]"
    unfolding e1 by (simp add: after_def p1c)
  have 3: "console (post_deploy_2 env_count_down body_alice docs_three) =
     [(''Error checking deployment limit:'', ''connection closed'')]"
    unfolding e2 by (simp add: after_def p2)
  have 4: "length (docs_after (post_deploy_2 env_count_down body_alice docs_three)) = 4"
    unfolding e2 by (simp add: after_def p2d)
  from u s c n l 1 2 3 4 show ?thesis by blast
qed

end
